theory Spec2Isabelle
  imports Complex_Main "HOL-Library.Option_ord" "HOL-Library.Product_Lexorder" "HOL-Library.Multiset"
begin

section \<open>SQL values and the warehouse engine\<close>

text \<open>
  The ELT core of the repository is a set of dbt models: SQL queries over tables. A table
  is a list of rows (a bag in scan order), a row is a record, and a nullable column has an
  \<open>option\<close> type with \<open>None\<close> for NULL. A DATE is a day number and a TIMESTAMP a
  number of microseconds, both counted from 1970-01-01 00:00:00 UTC.
\<close>

type_synonym date = int
type_synonym timestamp = int
type_synonym numeric = rat

definition INTERVAL_1_SECOND :: timestamp where
  "INTERVAL_1_SECOND = 1000000"

definition TIMESTAMP_of_date :: "date \<Rightarrow> timestamp" where
  "TIMESTAMP_of_date d = d * 86400 * 1000000"

text \<open>\<open>TIMESTAMP('9999-12-31 23:59:59')\<close>: second 253402300799 of the epoch.\<close>

definition TIMESTAMP_9999_12_31_23_59_59 :: timestamp where
  "TIMESTAMP_9999_12_31_23_59_59 = 253402300799 * 1000000"

text \<open>
  SQL's three-valued logic: a condition is TRUE, FALSE or NULL, and \<open>WHERE\<close>, \<open>ON\<close>,
  \<open>QUALIFY\<close> and \<open>CASE WHEN\<close> take a row only when the condition is TRUE.
\<close>

type_synonym sql_bool = "bool option"

definition sql_and :: "sql_bool \<Rightarrow> sql_bool \<Rightarrow> sql_bool" where
  "sql_and a b =
     (if a = Some False \<or> b = Some False then Some False
      else if a = None \<or> b = None then None else Some True)"

definition sql_or :: "sql_bool \<Rightarrow> sql_bool \<Rightarrow> sql_bool" where
  "sql_or a b =
     (if a = Some True \<or> b = Some True then Some True
      else if a = None \<or> b = None then None else Some False)"

definition sql_cmp :: "('a \<Rightarrow> 'a \<Rightarrow> bool) \<Rightarrow> 'a option \<Rightarrow> 'a option \<Rightarrow> sql_bool" where
  "sql_cmp p a b = (case (a, b) of (Some x, Some y) \<Rightarrow> Some (p x y) | _ \<Rightarrow> None)"

definition sql_eq :: "'a option \<Rightarrow> 'a option \<Rightarrow> sql_bool" where
  "sql_eq = sql_cmp (\<lambda>x y. x = y)"

definition sql_neq :: "'a option \<Rightarrow> 'a option \<Rightarrow> sql_bool" where
  "sql_neq = sql_cmp (\<lambda>x y. x \<noteq> y)"

definition sql_ge :: "'a::linorder option \<Rightarrow> 'a option \<Rightarrow> sql_bool" where
  "sql_ge = sql_cmp (\<lambda>x y. y \<le> x)"

definition sql_le :: "'a::linorder option \<Rightarrow> 'a option \<Rightarrow> sql_bool" where
  "sql_le = sql_cmp (\<lambda>x y. x \<le> y)"

definition sql_lt :: "'a::linorder option \<Rightarrow> 'a option \<Rightarrow> sql_bool" where
  "sql_lt = sql_cmp (\<lambda>x y. x < y)"

definition IS_NULL :: "'a option \<Rightarrow> sql_bool" where
  "IS_NULL a = Some (a = None)"

definition is_true :: "sql_bool \<Rightarrow> bool" where
  "is_true c = (c = Some True)"

definition sql_in :: "'a option \<Rightarrow> 'a list \<Rightarrow> sql_bool" where
  "sql_in a vs = (case a of None \<Rightarrow> None | Some x \<Rightarrow> Some (x \<in> set vs))"

definition COALESCE :: "'a option \<Rightarrow> 'a \<Rightarrow> 'a" where
  "COALESCE a d = (case a of None \<Rightarrow> d | Some x \<Rightarrow> x)"

text \<open>\<open>x LIKE '%pat%'\<close>: the pattern occurs somewhere in the string.\<close>

fun like_contains :: "string \<Rightarrow> string \<Rightarrow> bool" where
  "like_contains pat [] = (pat = [])"
| "like_contains pat (c # cs) = (take (length pat) (c # cs) = pat \<or> like_contains pat cs)"

text \<open>\<open>SPLIT(s, ' ')\<close>: the pieces of \<open>s\<close> between single delimiters; never an empty array.\<close>

fun SPLIT :: "string \<Rightarrow> char \<Rightarrow> string list" where
  "SPLIT [] d = [[]]"
| "SPLIT (c # cs) d =
     (if c = d then [] # SPLIT cs d
      else (case SPLIT cs d of [] \<Rightarrow> [[c]] | w # ws \<Rightarrow> (c # w) # ws))"

text \<open>
  The built-in functions of the warehouse that the models call but do not define are
  parameters of the model: the digest \<open>TO_HEX(MD5(_))\<close>, the casts to STRING, \<open>LOWER\<close>,
  the calendar functions, and the macro \<open>dbt_utils.generate_surrogate_key\<close> of the dbt
  package. Every theorem below holds for every engine.
\<close>

record engine =
  TO_HEX_MD5 :: "string \<Rightarrow> string"
  CAST_INT64_AS_STRING :: "int \<Rightarrow> string"
  CAST_DATE_AS_STRING :: "date \<Rightarrow> string"
  LOWER :: "string \<Rightarrow> string"
  DATE_DIFF_YEAR :: "date \<Rightarrow> date \<Rightarrow> int"
  EXTRACT_DAYOFYEAR :: "date \<Rightarrow> int"
  DATE_TRUNC_MONTH :: "date \<Rightarrow> date"
  DATE_TRUNC_QUARTER :: "date \<Rightarrow> date"
  DATE_TRUNC_YEAR :: "date \<Rightarrow> date"
  DATE_SUB_1_YEAR :: "date \<Rightarrow> date"
  TIMESTAMP_SUB_1_YEAR :: "timestamp \<Rightarrow> timestamp"
  generate_surrogate_key :: "int option \<Rightarrow> timestamp option \<Rightarrow> string"

text \<open>
  What differs from one run of a model to the next on the same tables: the clock, the
  stream of \<open>GENERATE_UUID()\<close> values (one per output row), and the relation name that
  \<open>{{ this }}\<close> renders to.
\<close>

record run =
  CURRENT_DATE :: date
  CURRENT_TIMESTAMP :: timestamp
  GENERATE_UUID :: "nat \<Rightarrow> string"
  this :: string

section \<open>Dimension Builder: \<open>dim_students\<close>\<close>

text \<open>A row of the raw source table \<open>source('raw', 'students')\<close>.\<close>

record raw_student =
  student_id :: "int option"
  full_name :: "string option"
  gender :: "string option"
  date_of_birth :: "date option"
  division :: "string option"
  district :: "string option"
  upazila :: "string option"
  socioeconomic_status :: "string option"
  disability_status :: "string option"
  guardian_contact :: "string option"
  created_at :: "timestamp option"

text \<open>The change-detection digest over all attributes (lines 23-38 of the model).\<close>

definition row_hash_of :: "engine \<Rightarrow> raw_student \<Rightarrow> string" where
  "row_hash_of eng r =
     TO_HEX_MD5 eng
       (COALESCE (map_option (CAST_INT64_AS_STRING eng) (student_id r)) [] @
        COALESCE (full_name r) [] @
        COALESCE (gender r) [] @
        COALESCE (map_option (CAST_DATE_AS_STRING eng) (date_of_birth r)) [] @
        COALESCE (division r) [] @
        COALESCE (district r) [] @
        COALESCE (upazila r) [] @
        COALESCE (socioeconomic_status r) [] @
        COALESCE (disability_status r) [] @
        COALESCE (guardian_contact r) [])"

text \<open>A row of the CTE \<open>student_updates\<close>: the source row and its four window columns.\<close>

record student_update =
  su_row :: raw_student
  row_hash :: string
  previous_row_hash :: "string option"
  next_created_at :: "timestamp option"
  rn :: nat

text \<open>
  The window columns of one \<open>PARTITION BY student_id\<close>, whose rows arrive ordered by
  \<open>created_at\<close> (NULL first, as ascending order puts it). \<open>LAG\<close> is the digest of the row
  before, \<open>LEAD(created_at)\<close> the timestamp of the row after, both over all source rows
  of the student. \<open>ROW_NUMBER() OVER (PARTITION BY student_id, created_at ORDER BY
  created_at)\<close> numbers the rows that share one timestamp: its ORDER BY is constant inside
  its partition, so the SQL fixes no order among them, and the model numbers them in the
  order they arrive, which is the scan order of the source table (the sort is stable).
  The arguments \<open>prev\<close> and \<open>seen\<close> carry the digest of the row before and the timestamp
  and number of the row before.
\<close>

fun student_updates_window ::
  "engine \<Rightarrow> string option \<Rightarrow> (timestamp option \<times> nat) option \<Rightarrow> raw_student list \<Rightarrow> student_update list"
where
  "student_updates_window eng prev seen [] = []"
| "student_updates_window eng prev seen (r # rs) =
     (let n = (case seen of
                 None \<Rightarrow> 1
               | Some (t, m) \<Rightarrow> if t = created_at r then Suc m else 1)
      in \<lparr> su_row = r,
           row_hash = row_hash_of eng r,
           previous_row_hash = prev,
           next_created_at = (case rs of [] \<Rightarrow> None | r' # _ \<Rightarrow> created_at r'),
           rn = n \<rparr>
         # student_updates_window eng (Some (row_hash_of eng r)) (Some (created_at r, n)) rs)"

definition student_partition :: "raw_student list \<Rightarrow> int \<Rightarrow> raw_student list" where
  "student_partition raw k = sort_key created_at (filter (\<lambda>r. student_id r = Some k) raw)"

definition student_updates :: "engine \<Rightarrow> raw_student list \<Rightarrow> student_update list" where
  "student_updates eng raw =
     concat (map (\<lambda>k. student_updates_window eng None None (student_partition raw k))
                 (remdups (List.map_filter student_id raw)))"

text \<open>A row of the CTE \<open>changed_records\<close>.\<close>

record changed_record =
  cr_student_id :: "int option"
  cr_full_name :: "string option"
  cr_gender :: "string option"
  cr_date_of_birth :: "date option"
  cr_division :: "string option"
  cr_district :: "string option"
  cr_upazila :: "string option"
  cr_socioeconomic_status :: "string option"
  cr_disability_status :: "string option"
  cr_guardian_contact :: "string option"
  cr_created_at :: "timestamp option"
  cr_next_created_at :: "timestamp option"
  cr_age :: "int option"
  cr_age_group :: string
  cr_first_name :: "string option"
  cr_last_name :: "string option"
  cr_standardized_gender :: string
  cr_has_disability :: bool
  cr_area_type :: string
  cr_is_current :: bool
  cr_effective_from :: "timestamp option"
  cr_effective_to :: timestamp

definition age_of :: "engine \<Rightarrow> run \<Rightarrow> date option \<Rightarrow> int option" where
  "age_of eng env dob =
     map_option
       (\<lambda>d. DATE_DIFF_YEAR eng (CURRENT_DATE env) d -
            (if EXTRACT_DAYOFYEAR eng (CURRENT_DATE env) < EXTRACT_DAYOFYEAR eng d then 1 else 0))
       dob"

definition age_group_of :: "engine \<Rightarrow> run \<Rightarrow> date option \<Rightarrow> string" where
  "age_group_of eng env dob =
     (let y = map_option (DATE_DIFF_YEAR eng (CURRENT_DATE env)) dob in
      if is_true (sql_lt y (Some 5)) then ''0-4''
      else if is_true (sql_and (sql_ge y (Some 5)) (sql_le y (Some 9))) then ''5-9''
      else if is_true (sql_and (sql_ge y (Some 10)) (sql_le y (Some 14))) then ''10-14''
      else if is_true (sql_and (sql_ge y (Some 15)) (sql_le y (Some 19))) then ''15-19''
      else if is_true (sql_and (sql_ge y (Some 20)) (sql_le y (Some 24))) then ''20-24''
      else ''25+'')"

text \<open>
  The gender literals of the model; the third of the first list is written in the file as
  the seven bytes \<open>6D C3 83 C2 A2 6C 65\<close>.
\<close>

definition standardized_gender_of :: "engine \<Rightarrow> string option \<Rightarrow> string" where
  "standardized_gender_of eng g =
     (let l = map_option (LOWER eng) g in
      if is_true (sql_in l [''m'', ''male'',
           [CHR ''m'', CHR 0xC3, CHR 0x83, CHR 0xC2, CHR 0xA2, CHR ''l'', CHR ''e''], ''homme''])
      then ''Male''
      else if is_true (sql_in l [''f'', ''female'', ''femme'']) then ''Female''
      else if is_true (sql_in l [''o'', ''other'', ''autre'']) then ''Other''
      else ''Unknown'')"

definition has_disability_of :: "engine \<Rightarrow> string option \<Rightarrow> bool" where
  "has_disability_of eng s =
     (if is_true (sql_or (IS_NULL s)
                         (sql_in (map_option (LOWER eng) s) [''none'', ''no'', ''na'', '''']))
      then False else True)"

definition area_type_of :: "engine \<Rightarrow> string option \<Rightarrow> string" where
  "area_type_of eng u =
     (let l = map_option (LOWER eng) u in
      if is_true (sql_or (sql_or (sql_or (map_option (like_contains ''sadar'') l)
                                         (map_option (like_contains ''town'') l))
                                 (map_option (like_contains ''city'') l))
                         (map_option (like_contains ''metro'') l))
      then ''Urban'' else ''Rural'')"

text \<open>The SELECT list of \<open>changed_records\<close>, computed from one row of \<open>student_updates\<close>.\<close>

definition changed_record_of :: "engine \<Rightarrow> run \<Rightarrow> student_update \<Rightarrow> changed_record" where
  "changed_record_of eng env u =
     (let r = su_row u in
      \<lparr> cr_student_id = student_id r,
        cr_full_name = full_name r,
        cr_gender = gender r,
        cr_date_of_birth = date_of_birth r,
        cr_division = division r,
        cr_district = district r,
        cr_upazila = upazila r,
        cr_socioeconomic_status = socioeconomic_status r,
        cr_disability_status = disability_status r,
        cr_guardian_contact = guardian_contact r,
        cr_created_at = created_at r,
        cr_next_created_at = next_created_at u,
        cr_age = age_of eng env (date_of_birth r),
        cr_age_group = age_group_of eng env (date_of_birth r),
        cr_first_name = map_option (\<lambda>s. hd (SPLIT s (CHR '' ''))) (full_name r),
        cr_last_name = map_option (\<lambda>s. hd (rev (SPLIT s (CHR '' '')))) (full_name r),
        cr_standardized_gender = standardized_gender_of eng (gender r),
        cr_has_disability = has_disability_of eng (disability_status r),
        cr_area_type = area_type_of eng (upazila r),
        cr_is_current = (if is_true (IS_NULL (next_created_at u)) then True else False),
        cr_effective_from = created_at r,
        cr_effective_to =
          COALESCE (map_option (\<lambda>t. t - INTERVAL_1_SECOND) (next_created_at u))
                   TIMESTAMP_9999_12_31_23_59_59 \<rparr>)"

text \<open>
  The WHERE clause of \<open>changed_records\<close>:
  \<open>(row_hash != previous_row_hash OR previous_row_hash IS NULL) AND rn = 1\<close>.
\<close>

definition is_changed :: "student_update \<Rightarrow> bool" where
  "is_changed u =
     is_true (sql_and (sql_or (sql_neq (Some (row_hash u)) (previous_row_hash u))
                              (IS_NULL (previous_row_hash u)))
                      (Some (rn u = 1)))"

definition changed_records :: "engine \<Rightarrow> run \<Rightarrow> raw_student list \<Rightarrow> changed_record list" where
  "changed_records eng env raw =
     map (changed_record_of eng env) (filter is_changed (student_updates eng raw))"

text \<open>A row of the table \<open>dim_students\<close>, in the column order of the final SELECT.\<close>

record dim_student =
  ds_student_key :: string
  ds_student_id :: "int option"
  ds_full_name :: "string option"
  ds_first_name :: "string option"
  ds_last_name :: "string option"
  ds_gender :: string
  ds_date_of_birth :: "date option"
  ds_age :: "int option"
  ds_age_group :: string
  ds_division :: "string option"
  ds_district :: "string option"
  ds_upazila :: "string option"
  ds_area_type :: string
  ds_socioeconomic_status :: "string option"
  ds_has_disability :: bool
  ds_disability_status :: "string option"
  ds_guardian_contact :: "string option"
  ds_is_current :: bool
  ds_effective_from :: "timestamp option"
  ds_effective_to :: timestamp
  ds_dwh_created_at :: timestamp
  ds_dwh_updated_at :: timestamp
  ds_record_source :: string

definition dim_student_of :: "run \<Rightarrow> nat \<Rightarrow> changed_record \<Rightarrow> dim_student" where
  "dim_student_of env i c =
     \<lparr> ds_student_key = GENERATE_UUID env i,
       ds_student_id = cr_student_id c,
       ds_full_name = cr_full_name c,
       ds_first_name = cr_first_name c,
       ds_last_name = cr_last_name c,
       ds_gender = cr_standardized_gender c,
       ds_date_of_birth = cr_date_of_birth c,
       ds_age = cr_age c,
       ds_age_group = cr_age_group c,
       ds_division = cr_division c,
       ds_district = cr_district c,
       ds_upazila = cr_upazila c,
       ds_area_type = cr_area_type c,
       ds_socioeconomic_status = cr_socioeconomic_status c,
       ds_has_disability = cr_has_disability c,
       ds_disability_status = cr_disability_status c,
       ds_guardian_contact = cr_guardian_contact c,
       ds_is_current = cr_is_current c,
       ds_effective_from = cr_effective_from c,
       ds_effective_to = cr_effective_to c,
       ds_dwh_created_at = CURRENT_TIMESTAMP env,
       ds_dwh_updated_at = CURRENT_TIMESTAMP env,
       ds_record_source = this env \<rparr>"

text \<open>
  The model's final SELECT: the changed records \<open>ORDER BY student_id, effective_from\<close>,
  each with a fresh \<open>GENERATE_UUID()\<close> as its surrogate key.
\<close>

definition dim_students :: "engine \<Rightarrow> run \<Rightarrow> raw_student list \<Rightarrow> dim_student list" where
  "dim_students eng env raw =
     map (\<lambda>(i, c). dim_student_of env i c)
         (enumerate 0 (sort_key (\<lambda>c. (cr_student_id c, cr_effective_from c))
                                (changed_records eng env raw)))"

section \<open>Fact Builder: \<open>fct_assessment_results\<close>\<close>

text \<open>
  A row of the staging model \<open>stg_assessment_results\<close> (alias \<open>ar\<close>), with the columns the
  fact model selects.
\<close>

record assessment_result =
  ar_assessment_result_id :: "int option"
  ar_student_id :: "int option"
  ar_teacher_id :: "int option"
  ar_school_id :: "int option"
  ar_assessment_id :: "int option"
  ar_assessment_date :: "date option"
  ar_academic_year :: "string option"
  ar_term :: "string option"
  ar_subject_id :: "int option"
  ar_grade :: "string option"
  ar_section :: "string option"
  ar_marks_obtained :: "numeric option"
  ar_max_marks :: "numeric option"
  ar_percentage :: "numeric option"
  ar_grade_letter :: "string option"
  ar_is_passed :: "bool option"
  ar_remarks :: "string option"
  ar_recorded_at :: "timestamp option"
  ar_recorded_by :: "string option"
  ar_assessment_type :: "string option"
  ar_assessment_category :: "string option"
  ar_is_makeup_exam :: "bool option"

text \<open>
  \<open>ROW_NUMBER() OVER (PARTITION BY pk ORDER BY ok DESC)\<close>: every partition in descending
  order of \<open>ok\<close> (NULL last), numbered from 1. Rows tied on \<open>ok\<close> keep their scan order.
\<close>

definition ORDER_BY_DESC :: "('a \<Rightarrow> 'o::linorder) \<Rightarrow> 'a list \<Rightarrow> 'a list" where
  "ORDER_BY_DESC ok rows = rev (sort_key ok (rev rows))"

definition ROW_NUMBER_DESC :: "('a \<Rightarrow> 'k) \<Rightarrow> ('a \<Rightarrow> 'o::linorder) \<Rightarrow> 'a list \<Rightarrow> (nat \<times> 'a) list" where
  "ROW_NUMBER_DESC pk ok rows =
     concat (map (\<lambda>k. enumerate 1 (ORDER_BY_DESC ok (filter (\<lambda>r. pk r = k) rows)))
                 (remdups (map pk rows)))"

text \<open>
  The start of the incremental window: the first day of the year before the current one,
  as a timestamp (line 57) and as a date (line 269).
\<close>

definition window_start_timestamp :: "engine \<Rightarrow> run \<Rightarrow> timestamp" where
  "window_start_timestamp eng env =
     TIMESTAMP_SUB_1_YEAR eng (TIMESTAMP_of_date (DATE_TRUNC_YEAR eng (CURRENT_DATE env)))"

definition window_start_date :: "engine \<Rightarrow> run \<Rightarrow> date" where
  "window_start_date eng env = DATE_TRUNC_YEAR eng (DATE_SUB_1_YEAR eng (CURRENT_DATE env))"

text \<open>
  The CTE \<open>assessment_results\<close>: the staged rows with a date (and, when the run is
  incremental, recorded inside the window), each with its number \<open>rn\<close>.
\<close>

definition in_load_window :: "engine \<Rightarrow> run \<Rightarrow> bool \<Rightarrow> assessment_result \<Rightarrow> bool" where
  "in_load_window eng env is_incremental r =
     (ar_assessment_date r \<noteq> None \<and>
      (\<not> is_incremental \<or>
       is_true (sql_ge (ar_recorded_at r) (Some (window_start_timestamp eng env)))))"

definition assessment_results ::
  "engine \<Rightarrow> run \<Rightarrow> bool \<Rightarrow> assessment_result list \<Rightarrow> (nat \<times> assessment_result) list" where
  "assessment_results eng env is_incremental stg =
     ROW_NUMBER_DESC ar_assessment_result_id ar_recorded_at
       (filter (in_load_window eng env is_incremental) stg)"

text \<open>The CTE \<open>student_info\<close>: the current rows of \<open>dim_students\<close>.\<close>

record student_info_row =
  si_student_id :: "int option"
  si_student_name :: "string option"
  si_student_gender :: string
  si_student_age_group :: string
  si_socioeconomic_status :: "string option"
  si_has_disability :: bool
  si_is_current :: bool

definition student_info :: "dim_student list \<Rightarrow> student_info_row list" where
  "student_info ds =
     map (\<lambda>d. \<lparr> si_student_id = ds_student_id d,
                si_student_name = ds_full_name d,
                si_student_gender = ds_gender d,
                si_student_age_group = ds_age_group d,
                si_socioeconomic_status = ds_socioeconomic_status d,
                si_has_disability = ds_has_disability d,
                si_is_current = ds_is_current d \<rparr>)
         (filter (\<lambda>d. ds_is_current d = True) ds)"

text \<open>
  The tables \<open>dim_teachers\<close>, \<open>dim_schools\<close> and \<open>dim_subjects\<close> are inputs of the fact
  model; their rows carry the columns it reads. The CTEs \<open>teacher_info\<close> and
  \<open>school_info\<close> keep the rows \<open>WHERE is_current = TRUE\<close>.
\<close>

record dim_teacher =
  dt_teacher_id :: "int option"
  dt_full_name :: "string option"
  dt_subject_specialization :: "string option"
  dt_years_of_experience :: "int option"
  dt_is_current :: "bool option"

definition teacher_info :: "dim_teacher list \<Rightarrow> dim_teacher list" where
  "teacher_info ts = filter (\<lambda>t. is_true (sql_eq (dt_is_current t) (Some True))) ts"

record dim_school =
  dsch_school_id :: "int option"
  dsch_school_name :: "string option"
  dsch_school_type :: "string option"
  dsch_education_level :: "string option"
  dsch_is_rural :: "bool option"
  dsch_is_current :: "bool option"

definition school_info :: "dim_school list \<Rightarrow> dim_school list" where
  "school_info ss = filter (\<lambda>s. is_true (sql_eq (dsch_is_current s) (Some True))) ss"

record dim_subject =
  dsub_subject_id :: "int option"
  dsub_subject_name :: "string option"

text \<open>
  \<open>a LEFT JOIN b ON c\<close>, for one row of \<open>a\<close>: the rows of \<open>b\<close> for which \<open>c\<close> is TRUE, or
  one all-NULL row when there is none.
\<close>

definition LEFT_JOIN :: "('b \<Rightarrow> sql_bool) \<Rightarrow> 'b list \<Rightarrow> 'b option list" where
  "LEFT_JOIN on bs = (case filter (\<lambda>b. is_true (on b)) bs of [] \<Rightarrow> [None] | m # ms \<Rightarrow> map Some (m # ms))"

text \<open>The derived measures (lines 164-193 of the model).\<close>

definition NULLIF :: "'a option \<Rightarrow> 'a \<Rightarrow> 'a option" where
  "NULLIF a v = (if a = Some v then None else a)"

definition SAFE_DIVIDE :: "numeric option \<Rightarrow> numeric option \<Rightarrow> numeric option" where
  "SAFE_DIVIDE a b =
     (case (a, b) of (Some x, Some y) \<Rightarrow> if y = 0 then None else Some (x / y) | _ \<Rightarrow> None)"

definition standardized_grade_of :: "numeric option \<Rightarrow> string" where
  "standardized_grade_of p =
     (if is_true (sql_ge p (Some 80)) then ''A+''
      else if is_true (sql_ge p (Some 70)) then ''A''
      else if is_true (sql_ge p (Some 60)) then ''A-''
      else if is_true (sql_ge p (Some 50)) then ''B''
      else if is_true (sql_ge p (Some 40)) then ''C''
      else if is_true (sql_ge p (Some 33)) then ''D''
      else ''F'')"

definition calculated_percentage_of :: "numeric option \<Rightarrow> numeric option \<Rightarrow> numeric option" where
  "calculated_percentage_of marks max_marks =
     map_option (\<lambda>q. q * 100) (SAFE_DIVIDE marks (NULLIF max_marks 0))"

definition performance_category_of :: "numeric option \<Rightarrow> string" where
  "performance_category_of p =
     (if is_true (sql_ge p (Some 80)) then ''Excellent (80-100%)''
      else if is_true (sql_ge p (Some 70)) then ''Very Good (70-79%)''
      else if is_true (sql_ge p (Some 60)) then ''Good (60-69%)''
      else if is_true (sql_ge p (Some 50)) then ''Satisfactory (50-59%)''
      else if is_true (sql_ge p (Some 40)) then ''Adequate (40-49%)''
      else if is_true (sql_ge p (Some 33)) then ''Marginal (33-39%)''
      else ''Fail (Below 33%)'')"

definition is_passed_indicator_of :: "numeric option \<Rightarrow> int" where
  "is_passed_indicator_of p = (if is_true (sql_ge p (Some 33)) then 1 else 0)"

definition is_good_performance_of :: "numeric option \<Rightarrow> int" where
  "is_good_performance_of p = (if is_true (sql_ge p (Some 60)) then 1 else 0)"

definition normalized_score_of :: "numeric option \<Rightarrow> numeric option \<Rightarrow> numeric option" where
  "normalized_score_of marks max_marks = SAFE_DIVIDE marks (NULLIF max_marks 1)"

text \<open>
  A row of \<open>enriched_results\<close> and of the fact table. \<open>f_ar\<close> holds the columns taken over
  from \<open>ar\<close> as they are (the business keys, the academic context, the assessment metrics,
  \<open>recorded_at\<close> and \<open>recorded_by\<close>); the other fields are the joined and derived columns.
  \<open>assessment_date\<close> is a date in the staged rows, so the cast \<open>DATE(ar.assessment_date)\<close>
  leaves it as it is and the column is read from \<open>f_ar\<close> as well.
\<close>

record assessment_fact =
  f_assessment_result_key :: string
  f_ar :: assessment_result
  f_assessment_month :: "date option"
  f_assessment_quarter :: "date option"
  f_assessment_year :: "date option"
  f_subject_name :: "string option"
  f_student_name :: "string option"
  f_student_gender :: "string option"
  f_student_age_group :: "string option"
  f_socioeconomic_status :: "string option"
  f_has_disability :: "bool option"
  f_teacher_name :: "string option"
  f_subject_specialization :: "string option"
  f_years_of_experience :: "int option"
  f_school_name :: "string option"
  f_school_type :: "string option"
  f_education_level :: "string option"
  f_is_rural :: "bool option"
  f_standardized_grade :: string
  f_calculated_percentage :: "numeric option"
  f_performance_category :: string
  f_is_passed_indicator :: int
  f_is_good_performance :: int
  f_normalized_score :: "numeric option"
  f_dwh_created_at :: timestamp
  f_dwh_updated_at :: timestamp
  f_record_source :: string

definition enriched_row ::
  "engine \<Rightarrow> run \<Rightarrow> assessment_result \<Rightarrow> student_info_row option \<Rightarrow> dim_teacher option \<Rightarrow>
   dim_school option \<Rightarrow> dim_subject option \<Rightarrow> assessment_fact" where
  "enriched_row eng env ar si ti sch sub =
     \<lparr> f_assessment_result_key =
         generate_surrogate_key eng (ar_assessment_result_id ar) (ar_recorded_at ar),
       f_ar = ar,
       f_assessment_month = map_option (DATE_TRUNC_MONTH eng) (ar_assessment_date ar),
       f_assessment_quarter = map_option (DATE_TRUNC_QUARTER eng) (ar_assessment_date ar),
       f_assessment_year = map_option (DATE_TRUNC_YEAR eng) (ar_assessment_date ar),
       f_subject_name = Option.bind sub dsub_subject_name,
       f_student_name = Option.bind si si_student_name,
       f_student_gender = map_option si_student_gender si,
       f_student_age_group = map_option si_student_age_group si,
       f_socioeconomic_status = Option.bind si si_socioeconomic_status,
       f_has_disability = map_option si_has_disability si,
       f_teacher_name = Option.bind ti dt_full_name,
       f_subject_specialization = Option.bind ti dt_subject_specialization,
       f_years_of_experience = Option.bind ti dt_years_of_experience,
       f_school_name = Option.bind sch dsch_school_name,
       f_school_type = Option.bind sch dsch_school_type,
       f_education_level = Option.bind sch dsch_education_level,
       f_is_rural = Option.bind sch dsch_is_rural,
       f_standardized_grade = standardized_grade_of (ar_percentage ar),
       f_calculated_percentage = calculated_percentage_of (ar_marks_obtained ar) (ar_max_marks ar),
       f_performance_category = performance_category_of (ar_percentage ar),
       f_is_passed_indicator = is_passed_indicator_of (ar_percentage ar),
       f_is_good_performance = is_good_performance_of (ar_percentage ar),
       f_normalized_score = normalized_score_of (ar_marks_obtained ar) (ar_max_marks ar),
       f_dwh_created_at = CURRENT_TIMESTAMP env,
       f_dwh_updated_at = CURRENT_TIMESTAMP env,
       f_record_source = this env \<rparr>"

text \<open>The four LEFT JOINs of \<open>enriched_results\<close>, for one row \<open>ar\<close> with \<open>rn = 1\<close>.\<close>

definition enrich ::
  "engine \<Rightarrow> run \<Rightarrow> dim_student list \<Rightarrow> dim_teacher list \<Rightarrow> dim_school list \<Rightarrow>
   dim_subject list \<Rightarrow> assessment_result \<Rightarrow> assessment_fact list" where
  "enrich eng env ds ts ss subs ar =
     [enriched_row eng env ar si ti sch sub.
        si \<leftarrow> LEFT_JOIN (\<lambda>s. sql_eq (ar_student_id ar) (si_student_id s)) (student_info ds),
        ti \<leftarrow> LEFT_JOIN (\<lambda>t. sql_eq (ar_teacher_id ar) (dt_teacher_id t)) (teacher_info ts),
        sch \<leftarrow> LEFT_JOIN (\<lambda>s. sql_eq (ar_school_id ar) (dsch_school_id s)) (school_info ss),
        sub \<leftarrow> LEFT_JOIN (\<lambda>s. sql_eq (ar_subject_id ar) (dsub_subject_id s)) subs]"

definition enriched_results ::
  "engine \<Rightarrow> run \<Rightarrow> bool \<Rightarrow> assessment_result list \<Rightarrow> dim_student list \<Rightarrow> dim_teacher list \<Rightarrow>
   dim_school list \<Rightarrow> dim_subject list \<Rightarrow> assessment_fact list" where
  "enriched_results eng env is_incremental stg ds ts ss subs =
     concat (map (\<lambda>(n, ar). enrich eng env ds ts ss subs ar)
                 (filter (\<lambda>(n, ar). n = 1) (assessment_results eng env is_incremental stg)))"

text \<open>
  \<open>x NOT IN (subquery)\<close>: FALSE when a value of the subquery equals \<open>x\<close>, TRUE when the
  subquery is empty or holds only values different from \<open>x\<close> and no NULL, NULL otherwise.
\<close>

definition sql_not_in :: "'a option \<Rightarrow> 'a option list \<Rightarrow> sql_bool" where
  "sql_not_in x ys =
     (if ys = [] then Some True
      else case x of
             None \<Rightarrow> None
           | Some v \<Rightarrow> if Some v \<in> set ys then Some False
                       else if None \<in> set ys then None else Some True)"

text \<open>
  \<open>target\<close> is the fact table before the run: \<open>None\<close> when the run is not incremental
  (\<open>is_incremental()\<close> is false), else the rows of \<open>{{ this }}\<close>. The subquery of the
  final WHERE lists the ids already loaded inside the window (lines 267-269).
\<close>

definition loaded_ids :: "engine \<Rightarrow> run \<Rightarrow> assessment_fact list \<Rightarrow> int option list" where
  "loaded_ids eng env rows =
     map (\<lambda>f. ar_assessment_result_id (f_ar f))
         (filter (\<lambda>f. is_true (sql_ge (ar_assessment_date (f_ar f))
                                       (Some (window_start_date eng env))))
                 rows)"

definition not_yet_loaded :: "engine \<Rightarrow> run \<Rightarrow> assessment_fact list option \<Rightarrow> int option \<Rightarrow> bool" where
  "not_yet_loaded eng env target i =
     (case target of
        None \<Rightarrow> True
      | Some rows \<Rightarrow> is_true (sql_not_in i (loaded_ids eng env rows)))"

text \<open>
  The model's final SELECT. An incremental run keeps the rows whose id is \<open>NOT IN\<close> the
  ids already loaded; \<open>QUALIFY\<close> keeps the first row of every id; the result is ordered
  by date, school, student and subject.
\<close>

definition fct_assessment_results ::
  "engine \<Rightarrow> run \<Rightarrow> assessment_fact list option \<Rightarrow> assessment_result list \<Rightarrow> dim_student list \<Rightarrow>
   dim_teacher list \<Rightarrow> dim_school list \<Rightarrow> dim_subject list \<Rightarrow> assessment_fact list" where
  "fct_assessment_results eng env target stg ds ts ss subs =
     sort_key (\<lambda>f. (ar_assessment_date (f_ar f), ar_school_id (f_ar f),
                     ar_student_id (f_ar f), ar_subject_id (f_ar f)))
       (map snd (filter (\<lambda>(n, f). n = 1)
          (ROW_NUMBER_DESC (\<lambda>f. ar_assessment_result_id (f_ar f))
                           (\<lambda>f. ar_recorded_at (f_ar f))
             (filter (\<lambda>f. not_yet_loaded eng env target (ar_assessment_result_id (f_ar f)))
                     (enriched_results eng env (target \<noteq> None) stg ds ts ss subs)))))"

section \<open>Mart Aggregator: \<open>equity_metrics\<close>\<close>

text \<open>
  A row of the CTE \<open>student_metrics\<close>: one stratum of students (geography, demographics,
  school characteristics, academic year) with its average percentage, its number of
  distinct students and its average attendance rate. The rows of this CTE are the input of
  the model of the mart; its three \<open>CASE\<close> columns that the later steps read are functions
  of the row.
\<close>

record student_metric =
  sm_division_name :: "string option"
  sm_district_name :: "string option"
  sm_upazila_name :: "string option"
  sm_urban_rural_classification :: "string option"
  sm_gender :: "string option"
  sm_age_group :: "string option"
  sm_socioeconomic_status :: "string option"
  sm_has_disability :: "bool option"
  sm_school_type :: "string option"
  sm_is_rural :: "bool option"
  sm_education_level :: "string option"
  sm_academic_year :: "string option"
  sm_grade :: "string option"
  sm_avg_performance :: "numeric option"
  sm_student_count :: int
  sm_avg_attendance_rate :: "numeric option"

definition is_low_income :: "student_metric \<Rightarrow> int" where
  "is_low_income r =
     (if is_true (sql_in (sm_socioeconomic_status r) [''Low'', ''Very Low'']) then 1 else 0)"

definition has_disability_flag :: "student_metric \<Rightarrow> int" where
  "has_disability_flag r = (if is_true (sm_has_disability r) then 1 else 0)"

definition is_rural_area :: "student_metric \<Rightarrow> int" where
  "is_rural_area r =
     (if is_true (sql_eq (sm_urban_rural_classification r) (Some ''Rural'')) then 1 else 0)"

text \<open>The aggregates \<open>SUM\<close> and \<open>AVG\<close> skip NULL and are NULL when nothing is left.\<close>

definition SQL_SUM :: "'a::comm_monoid_add option list \<Rightarrow> 'a option" where
  "SQL_SUM xs = (case List.map_filter (\<lambda>x. x) xs of [] \<Rightarrow> None | v # vs \<Rightarrow> Some (sum_list (v # vs)))"

definition SQL_AVG :: "numeric option list \<Rightarrow> numeric option" where
  "SQL_AVG xs =
     (case List.map_filter (\<lambda>x. x) xs of
        [] \<Rightarrow> None
      | v # vs \<Rightarrow> Some (sum_list (v # vs) / of_nat (length (v # vs))))"

text \<open>The eight grouping columns of \<open>equity_analysis\<close> and of the mart.\<close>

record equity_group =
  g_division_name :: "string option"
  g_district_name :: "string option"
  g_upazila_name :: "string option"
  g_urban_rural_classification :: "string option"
  g_school_type :: "string option"
  g_education_level :: "string option"
  g_academic_year :: "string option"
  g_grade :: "string option"

definition group_of :: "student_metric \<Rightarrow> equity_group" where
  "group_of r =
     \<lparr> g_division_name = sm_division_name r,
       g_district_name = sm_district_name r,
       g_upazila_name = sm_upazila_name r,
       g_urban_rural_classification = sm_urban_rural_classification r,
       g_school_type = sm_school_type r,
       g_education_level = sm_education_level r,
       g_academic_year = sm_academic_year r,
       g_grade = sm_grade r \<rparr>"

record equity_analysis_row =
  ea_group :: equity_group
  ea_total_students :: "int option"
  ea_overall_avg_performance :: "numeric option"
  ea_overall_attendance_rate :: "numeric option"
  ea_female_avg_performance :: "numeric option"
  ea_male_avg_performance :: "numeric option"
  ea_low_income_avg_performance :: "numeric option"
  ea_non_low_income_avg_performance :: "numeric option"
  ea_with_disability_avg_performance :: "numeric option"
  ea_without_disability_avg_performance :: "numeric option"
  ea_rural_avg_performance :: "numeric option"
  ea_urban_avg_performance :: "numeric option"
  ea_female_count :: "int option"
  ea_male_count :: "int option"
  ea_low_income_count :: "int option"
  ea_with_disability_count :: "int option"
  ea_rural_count :: "int option"

text \<open>
  \<open>SUM(CASE WHEN c THEN student_count ELSE 0 END)\<close> and the weighted average
  \<open>SAFE_DIVIDE(SUM(CASE WHEN c THEN avg_performance * student_count ELSE 0 END),
  NULLIF(SUM(CASE WHEN c THEN student_count ELSE 0 END), 0))\<close> of the rows of one group.
\<close>

definition count_where :: "(student_metric \<Rightarrow> bool) \<Rightarrow> student_metric list \<Rightarrow> int option" where
  "count_where c rows = SQL_SUM (map (\<lambda>r. if c r then Some (sm_student_count r) else Some 0) rows)"

definition avg_where :: "(student_metric \<Rightarrow> bool) \<Rightarrow> student_metric list \<Rightarrow> numeric option" where
  "avg_where c rows =
     SAFE_DIVIDE
       (SQL_SUM (map (\<lambda>r. if c r
                          then map_option (\<lambda>p. p * of_int (sm_student_count r)) (sm_avg_performance r)
                          else Some 0) rows))
       (NULLIF (map_option of_int (count_where c rows)) 0)"

definition equity_analysis_of :: "equity_group \<Rightarrow> student_metric list \<Rightarrow> equity_analysis_row" where
  "equity_analysis_of g rows =
     \<lparr> ea_group = g,
       ea_total_students = SQL_SUM (map (\<lambda>r. Some (sm_student_count r)) rows),
       ea_overall_avg_performance = SQL_AVG (map sm_avg_performance rows),
       ea_overall_attendance_rate = SQL_AVG (map sm_avg_attendance_rate rows),
       ea_female_avg_performance = avg_where (\<lambda>r. is_true (sql_eq (sm_gender r) (Some ''Female''))) rows,
       ea_male_avg_performance = avg_where (\<lambda>r. is_true (sql_eq (sm_gender r) (Some ''Male''))) rows,
       ea_low_income_avg_performance = avg_where (\<lambda>r. is_low_income r = 1) rows,
       ea_non_low_income_avg_performance = avg_where (\<lambda>r. is_low_income r = 0) rows,
       ea_with_disability_avg_performance = avg_where (\<lambda>r. has_disability_flag r = 1) rows,
       ea_without_disability_avg_performance = avg_where (\<lambda>r. has_disability_flag r = 0) rows,
       ea_rural_avg_performance = avg_where (\<lambda>r. is_rural_area r = 1) rows,
       ea_urban_avg_performance = avg_where (\<lambda>r. is_rural_area r = 0) rows,
       ea_female_count = count_where (\<lambda>r. is_true (sql_eq (sm_gender r) (Some ''Female''))) rows,
       ea_male_count = count_where (\<lambda>r. is_true (sql_eq (sm_gender r) (Some ''Male''))) rows,
       ea_low_income_count = count_where (\<lambda>r. is_low_income r = 1) rows,
       ea_with_disability_count = count_where (\<lambda>r. has_disability_flag r = 1) rows,
       ea_rural_count = count_where (\<lambda>r. is_rural_area r = 1) rows \<rparr>"

text \<open>The CTE \<open>equity_analysis\<close>: one row for every group of \<open>student_metrics\<close>.\<close>

definition equity_analysis :: "student_metric list \<Rightarrow> equity_analysis_row list" where
  "equity_analysis sm =
     map (\<lambda>g. equity_analysis_of g (filter (\<lambda>r. group_of r = g) sm))
         (remdups (map group_of sm))"

text \<open>\<open>ROUND(x, 2)\<close>: to two decimals, halfway cases away from zero.\<close>

definition ROUND_2 :: "numeric \<Rightarrow> numeric" where
  "ROUND_2 x = sgn x * of_int \<lfloor>\<bar>x\<bar> * 100 + 1 / 2\<rfloor> / 100"

definition sql_minus :: "numeric option \<Rightarrow> numeric option \<Rightarrow> numeric option" where
  "sql_minus a b = (case (a, b) of (Some x, Some y) \<Rightarrow> Some (x - y) | _ \<Rightarrow> None)"

text \<open>The equity indicator \<open>CASE WHEN ABS(a - b) <= 5 THEN 1 ELSE 0 END\<close>.\<close>

definition equitable :: "numeric option \<Rightarrow> numeric option \<Rightarrow> int" where
  "equitable a b = (if is_true (sql_le (map_option abs (sql_minus a b)) (Some 5)) then 1 else 0)"

record equity_metric =
  em_equity_metric_key :: string
  em_group :: equity_group
  em_total_students :: "int option"
  em_overall_avg_performance :: "numeric option"
  em_overall_attendance_rate :: "numeric option"
  em_female_avg_performance :: "numeric option"
  em_male_avg_performance :: "numeric option"
  em_gender_gap :: "numeric option"
  em_low_income_avg_performance :: "numeric option"
  em_non_low_income_avg_performance :: "numeric option"
  em_income_gap :: "numeric option"
  em_with_disability_avg_performance :: "numeric option"
  em_without_disability_avg_performance :: "numeric option"
  em_disability_gap :: "numeric option"
  em_rural_avg_performance :: "numeric option"
  em_urban_avg_performance :: "numeric option"
  em_urban_rural_gap :: "numeric option"
  em_female_count :: "int option"
  em_male_count :: "int option"
  em_low_income_count :: "int option"
  em_with_disability_count :: "int option"
  em_rural_count :: "int option"
  em_is_gender_equitable :: int
  em_is_income_equitable :: int
  em_is_disability_equitable :: int
  em_is_location_equitable :: int
  em_as_of_date :: date
  em_dwh_created_at :: timestamp

definition equity_metric_of :: "run \<Rightarrow> nat \<Rightarrow> equity_analysis_row \<Rightarrow> equity_metric" where
  "equity_metric_of env i a =
     \<lparr> em_equity_metric_key = GENERATE_UUID env i,
       em_group = ea_group a,
       em_total_students = ea_total_students a,
       em_overall_avg_performance = map_option ROUND_2 (ea_overall_avg_performance a),
       em_overall_attendance_rate =
         map_option (\<lambda>x. ROUND_2 (x * 100)) (ea_overall_attendance_rate a),
       em_female_avg_performance = map_option ROUND_2 (ea_female_avg_performance a),
       em_male_avg_performance = map_option ROUND_2 (ea_male_avg_performance a),
       em_gender_gap =
         map_option ROUND_2 (sql_minus (ea_male_avg_performance a) (ea_female_avg_performance a)),
       em_low_income_avg_performance = map_option ROUND_2 (ea_low_income_avg_performance a),
       em_non_low_income_avg_performance = map_option ROUND_2 (ea_non_low_income_avg_performance a),
       em_income_gap =
         map_option ROUND_2
           (sql_minus (ea_non_low_income_avg_performance a) (ea_low_income_avg_performance a)),
       em_with_disability_avg_performance = map_option ROUND_2 (ea_with_disability_avg_performance a),
       em_without_disability_avg_performance =
         map_option ROUND_2 (ea_without_disability_avg_performance a),
       em_disability_gap =
         map_option ROUND_2
           (sql_minus (ea_without_disability_avg_performance a) (ea_with_disability_avg_performance a)),
       em_rural_avg_performance = map_option ROUND_2 (ea_rural_avg_performance a),
       em_urban_avg_performance = map_option ROUND_2 (ea_urban_avg_performance a),
       em_urban_rural_gap =
         map_option ROUND_2 (sql_minus (ea_urban_avg_performance a) (ea_rural_avg_performance a)),
       em_female_count = ea_female_count a,
       em_male_count = ea_male_count a,
       em_low_income_count = ea_low_income_count a,
       em_with_disability_count = ea_with_disability_count a,
       em_rural_count = ea_rural_count a,
       em_is_gender_equitable =
         equitable (ea_male_avg_performance a) (ea_female_avg_performance a),
       em_is_income_equitable =
         equitable (ea_non_low_income_avg_performance a) (ea_low_income_avg_performance a),
       em_is_disability_equitable =
         equitable (ea_without_disability_avg_performance a) (ea_with_disability_avg_performance a),
       em_is_location_equitable =
         equitable (ea_urban_avg_performance a) (ea_rural_avg_performance a),
       em_as_of_date = CURRENT_DATE env,
       em_dwh_created_at = CURRENT_TIMESTAMP env \<rparr>"

text \<open>The WHERE clause of the final SELECT (lines 239-244): groups with sufficient data.\<close>

definition sufficient_data :: "equity_analysis_row \<Rightarrow> bool" where
  "sufficient_data a =
     is_true
       (sql_and (sql_and (sql_and (sql_and (sql_and
          (sql_ge (ea_total_students a) (Some 10))
          (sql_ge (ea_female_count a) (Some 5)))
          (sql_ge (ea_male_count a) (Some 5)))
          (sql_or (sql_ge (ea_low_income_count a) (Some 5)) (IS_NULL (ea_low_income_count a))))
          (sql_or (sql_ge (ea_with_disability_count a) (Some 3))
                  (IS_NULL (ea_with_disability_count a))))
          (sql_or (sql_ge (ea_rural_count a) (Some 5)) (sql_eq (ea_rural_count a) (Some 0))))"

definition equity_metrics :: "run \<Rightarrow> student_metric list \<Rightarrow> equity_metric list" where
  "equity_metrics env sm =
     map (\<lambda>(i, a). equity_metric_of env i a)
         (enumerate 0 (filter sufficient_data (equity_analysis sm)))"

section \<open>A fixed engine, two runs and small tables for concrete evaluation\<close>

text \<open>
  The closed examples below evaluate the models under one fixed engine. Its digest is the
  identity on the concatenated attributes, so two rows have the same digest exactly when
  their concatenations are equal; integers and dates are printed in decimal (dates as
  their day number). The calendar functions count a year as 365 days; no example depends
  on them.
\<close>

function show_nat :: "nat \<Rightarrow> string" where
  "show_nat n =
     (if n < 10 then [''0123456789'' ! n]
      else show_nat (n div 10) @ [''0123456789'' ! (n mod 10)])"
  by pat_completeness auto
termination
  by (relation "measure (\<lambda>n. n)") auto

definition show_int :: "int \<Rightarrow> string" where
  "show_int i = (if i < 0 then CHR ''-'' # show_nat (nat (- i)) else show_nat (nat i))"

definition example_engine :: engine where
  "example_engine =
     \<lparr> TO_HEX_MD5 = (\<lambda>s. s),
       CAST_INT64_AS_STRING = show_int,
       CAST_DATE_AS_STRING = show_int,
       LOWER = (\<lambda>s. s),
       DATE_DIFF_YEAR = (\<lambda>a b. (a - b) div 365),
       EXTRACT_DAYOFYEAR = (\<lambda>d. d mod 365 + 1),
       DATE_TRUNC_MONTH = (\<lambda>d. d - d mod 30),
       DATE_TRUNC_QUARTER = (\<lambda>d. d - d mod 91),
       DATE_TRUNC_YEAR = (\<lambda>d. d - d mod 365),
       DATE_SUB_1_YEAR = (\<lambda>d. d - 365),
       TIMESTAMP_SUB_1_YEAR = (\<lambda>t. t - 365 * 86400 * 1000000),
       generate_surrogate_key =
         (\<lambda>i t. COALESCE (map_option show_int i) ''_dbt_utils_surrogate_key_null_'' @ ''-'' @
                COALESCE (map_option show_int t) ''_dbt_utils_surrogate_key_null_'') \<rparr>"

text \<open>Two runs on 2026-01-01 (day 20454) that differ in the UUIDs they draw.\<close>

definition run_A :: run where
  "run_A = \<lparr> CURRENT_DATE = 20454, CURRENT_TIMESTAMP = TIMESTAMP_of_date 20454,
             GENERATE_UUID = (\<lambda>i. ''uuid-a-'' @ show_nat i), this = ''warehouse.model'' \<rparr>"

definition run_B :: run where
  "run_B = \<lparr> CURRENT_DATE = 20454, CURRENT_TIMESTAMP = TIMESTAMP_of_date 20454,
             GENERATE_UUID = (\<lambda>i. ''uuid-b-'' @ show_nat i), this = ''warehouse.model'' \<rparr>"

text \<open>
  A source row of student \<open>i\<close> living in district \<open>d\<close> with socioeconomic status \<open>s\<close>,
  landed at midnight of day \<open>t\<close>. Day 19723 is 2024-01-01, day 19783 is 2024-03-01 and
  day 19875 is 2024-06-01.
\<close>

definition student_row :: "int \<Rightarrow> string \<Rightarrow> string \<Rightarrow> date \<Rightarrow> raw_student" where
  "student_row i d s t =
     \<lparr> student_id = Some i, full_name = Some ''Amina Rahman'', gender = Some ''f'',
       date_of_birth = None, division = Some ''Dhaka'', district = Some d,
       upazila = Some ''Savar'', socioeconomic_status = Some s, disability_status = None,
       guardian_contact = None, created_at = Some (TIMESTAMP_of_date t) \<rparr>"

text \<open>The spec's scenario: student 1 moves from district A to district B on 2024-06-01.\<close>

definition students_A_then_B :: "raw_student list" where
  "students_A_then_B = [student_row 1 ''A'' ''Low'' 19723, student_row 1 ''B'' ''High'' 19875]"

text \<open>The last source row repeats the row before it.\<close>

definition students_A_then_A :: "raw_student list" where
  "students_A_then_A = [student_row 1 ''A'' ''Low'' 19723, student_row 1 ''A'' ''Low'' 19875]"

text \<open>A repeated row in the middle of the history (2024-03-01).\<close>

definition students_A_A_then_B :: "raw_student list" where
  "students_A_A_then_B =
     [student_row 1 ''A'' ''Low'' 19723, student_row 1 ''A'' ''Low'' 19783,
      student_row 1 ''B'' ''High'' 19875]"

text \<open>Two source rows of one student with the same timestamp, in both scan orders.\<close>

definition students_tie_AB :: "raw_student list" where
  "students_tie_AB = [student_row 1 ''A'' ''Low'' 19723, student_row 1 ''B'' ''Low'' 19723]"

definition students_tie_BA :: "raw_student list" where
  "students_tie_BA = [student_row 1 ''B'' ''Low'' 19723, student_row 1 ''A'' ''Low'' 19723]"

text \<open>
  Two source rows of one student with the same timestamp, in both scan orders, followed by
  a later row that repeats row A.
\<close>

definition students_tie_AB_then_A :: "raw_student list" where
  "students_tie_AB_then_A =
     [student_row 1 ''A'' ''Low'' 19723, student_row 1 ''B'' ''Low'' 19723,
      student_row 1 ''A'' ''Low'' 19875]"

definition students_tie_BA_then_A :: "raw_student list" where
  "students_tie_BA_then_A =
     [student_row 1 ''B'' ''Low'' 19723, student_row 1 ''A'' ''Low'' 19723,
      student_row 1 ''A'' ''Low'' 19875]"

text \<open>
  Two source rows that differ in district and upazila while the concatenation of their
  attribute strings is the same.
\<close>

definition students_AB_C_then_A_BC :: "raw_student list" where
  "students_AB_C_then_A_BC =
     [(student_row 1 ''AB'' ''Low'' 19723)\<lparr> upazila := Some ''C'' \<rparr>,
      (student_row 1 ''A'' ''Low'' 19875)\<lparr> upazila := Some ''BC'' \<rparr>]"

text \<open>
  A staged assessment result: event \<open>i\<close> of student \<open>s\<close>, dated \<open>d\<close>, recorded at \<open>t\<close>,
  with \<open>m\<close> marks out of \<open>mx\<close>.
\<close>

definition result_row ::
  "int \<Rightarrow> int \<Rightarrow> date option \<Rightarrow> timestamp option \<Rightarrow> numeric \<Rightarrow> numeric \<Rightarrow> assessment_result" where
  "result_row i s d t m mx =
     \<lparr> ar_assessment_result_id = Some i, ar_student_id = Some s, ar_teacher_id = Some 7,
       ar_school_id = Some 3, ar_assessment_id = Some 11, ar_assessment_date = d,
       ar_academic_year = Some ''2024'', ar_term = Some ''1'', ar_subject_id = Some 5,
       ar_grade = Some ''8'', ar_section = Some ''A'', ar_marks_obtained = Some m,
       ar_max_marks = Some mx, ar_percentage = Some (m / mx * 100), ar_grade_letter = None,
       ar_is_passed = None, ar_remarks = None, ar_recorded_at = t, ar_recorded_by = None,
       ar_assessment_type = Some ''Exam'', ar_assessment_category = None,
       ar_is_makeup_exam = Some False \<rparr>"

text \<open>
  A stratum of \<open>student_metrics\<close> in one fixed group: \<open>n\<close> students of gender \<open>g\<close> and
  socioeconomic status \<open>s\<close>, with or without a disability, averaging \<open>p\<close>.
\<close>

definition stratum :: "string \<Rightarrow> string \<Rightarrow> bool \<Rightarrow> numeric \<Rightarrow> int \<Rightarrow> student_metric" where
  "stratum g s dis p n =
     \<lparr> sm_division_name = Some ''Dhaka'', sm_district_name = Some ''Dhaka'',
       sm_upazila_name = Some ''Savar'', sm_urban_rural_classification = Some ''Urban'',
       sm_gender = Some g, sm_age_group = Some ''10-14'', sm_socioeconomic_status = Some s,
       sm_has_disability = Some dis, sm_school_type = Some ''Government'',
       sm_is_rural = Some False, sm_education_level = Some ''Secondary'',
       sm_academic_year = Some ''2024'', sm_grade = Some ''8'',
       sm_avg_performance = Some p, sm_student_count = n, sm_avg_attendance_rate = None \<rparr>"

text \<open>Three female and ten male students: thirteen in all.\<close>

definition group_three_girls :: "student_metric list" where
  "group_three_girls = [stratum ''Female'' ''Low'' True 72 3, stratum ''Male'' ''Low'' True 80 10]"

text \<open>Six female students averaging 72 and ten male students averaging 80.\<close>

definition group_72_80 :: "student_metric list" where
  "group_72_80 = [stratum ''Female'' ''Low'' True 72 6, stratum ''Male'' ''Low'' True 80 10]"

text \<open>Six female students averaging 72.004 and ten male students averaging 80.005.\<close>

definition group_fractions :: "student_metric list" where
  "group_fractions =
     [stratum ''Female'' ''Low'' True (72004 / 1000) 6, stratum ''Male'' ''Low'' True (80005 / 1000) 10]"

text \<open>Two groups: the one above in grade 8, and three girls and ten boys in grade 9.\<close>

definition group_mixed :: "student_metric list" where
  "group_mixed = group_72_80 @ map (\<lambda>r. r\<lparr> sm_grade := Some ''9'' \<rparr>) group_three_girls"

text \<open>Staged results: one event; two events, one of a student unknown to the dimension;
  two versions of one event; and a later version of an event that lost its date.\<close>

definition results_one_student :: "assessment_result list" where
  "results_one_student = [result_row 1 1 (Some 19783) (Some (TIMESTAMP_of_date 19790)) 40 50]"





section \<open>Names for parts of the queries\<close>

text \<open>The rows numbered 1: the first row of every partition, in the order of the keys.\<close>

definition first_of :: "('a \<Rightarrow> 'k) \<Rightarrow> ('a \<Rightarrow> 'o::linorder) \<Rightarrow> 'a list \<Rightarrow> 'k \<Rightarrow> 'a" where
  "first_of pk ok rows k = hd (ORDER_BY_DESC ok (filter (\<lambda>r. pk r = k) rows))"

text \<open>The staged rows a run takes up, and the latest version of event \<open>k\<close> among them.\<close>

definition taken_up :: "engine \<Rightarrow> run \<Rightarrow> bool \<Rightarrow> assessment_result list \<Rightarrow> assessment_result list" where
  "taken_up eng env inc stg = filter (in_load_window eng env inc) stg"

definition latest_version :: "engine \<Rightarrow> run \<Rightarrow> bool \<Rightarrow> assessment_result list \<Rightarrow> int option \<Rightarrow> assessment_result" where
  "latest_version eng env inc stg k = first_of ar_assessment_result_id ar_recorded_at (taken_up eng env inc stg) k"

text \<open>The rows the final WHERE keeps, before \<open>QUALIFY\<close>.\<close>

definition selected :: 
  "engine \<Rightarrow> run \<Rightarrow> assessment_fact list option \<Rightarrow> assessment_result list \<Rightarrow> dim_student list \<Rightarrow>
   dim_teacher list \<Rightarrow> dim_school list \<Rightarrow> dim_subject list \<Rightarrow> assessment_fact list" where
  "selected eng env target stg ds ts ss subs =
     filter (\<lambda>f. not_yet_loaded eng env target (ar_assessment_result_id (f_ar f)))
            (enriched_results eng env (target \<noteq> None) stg ds ts ss subs)"


text \<open>The updates that pass the WHERE clause of \<open>changed_records\<close>, in the order of the final SELECT.\<close>

definition emitted_updates :: "engine \<Rightarrow> raw_student list \<Rightarrow> student_update list" where
  "emitted_updates eng raw =
     sort_key (\<lambda>u. (student_id (su_row u), created_at (su_row u)))
              (filter is_changed (student_updates eng raw))"

text \<open>The updates of student \<open>k\<close> that pass the WHERE clause.\<close>

definition versions :: "engine \<Rightarrow> raw_student list \<Rightarrow> int \<Rightarrow> student_update list" where
  "versions eng raw k =
     filter is_changed (student_updates_window eng None None (student_partition raw k))"


text \<open>
  No two source rows with a business key share that key and the timestamp: the input on
  which the deduplicating \<open>ROW_NUMBER\<close> has nothing to choose.
\<close>

definition no_tied_rows :: "raw_student list \<Rightarrow> bool" where
  "no_tied_rows raw =
     distinct (map (\<lambda>r. (student_id r, created_at r)) (filter (\<lambda>r. student_id r \<noteq> None) raw))"


text \<open>
  A history of one student in which every source row is a new version: it carries a
  timestamp, is later than the row before it, and differs from it in its digest.
\<close>

fun every_row_a_new_version :: "engine \<Rightarrow> raw_student list \<Rightarrow> bool" where
  "every_row_a_new_version eng [] = True"
| "every_row_a_new_version eng [r] = (created_at r \<noteq> None)"
| "every_row_a_new_version eng (r # r' # rs) =
     (created_at r \<noteq> None \<and> created_at r < created_at r' \<and>
      row_hash_of eng r \<noteq> row_hash_of eng r' \<and> every_row_a_new_version eng (r' # rs))"


text \<open>
  The validity intervals of a list of version timestamps as the model computes them:
  each version ends one second before the next begins (\<open>TIMESTAMP_SUB(..., INTERVAL 1
  SECOND)\<close>), the last ends at the sentinel and is the current one.
\<close>

fun scd2_intervals :: "timestamp list \<Rightarrow> (timestamp option \<times> timestamp \<times> bool) list" where
  "scd2_intervals [] = []"
| "scd2_intervals [t] = [(Some t, TIMESTAMP_9999_12_31_23_59_59, True)]"
| "scd2_intervals (t # t' # ts) = (Some t, t' - INTERVAL_1_SECOND, False) # scd2_intervals (t' # ts)"


text \<open>
  The invariant of the rows of one business key, in the order of \<open>effective_from\<close>: closed
  intervals that follow each other at a distance of one second, none but the last current,
  the last open-ended.
\<close>

fun scd2_chain :: "dim_student list \<Rightarrow> bool" where
  "scd2_chain [] = True"
| "scd2_chain [d] = (ds_is_current d \<and> ds_effective_to d = TIMESTAMP_9999_12_31_23_59_59)"
| "scd2_chain (d # d' # ds) =
     (\<not> ds_is_current d \<and> ds_effective_from d < ds_effective_from d' \<and>
      ds_effective_from d' = Some (ds_effective_to d + INTERVAL_1_SECOND) \<and>
      scd2_chain (d' # ds))"


definition interval_of :: "changed_record \<Rightarrow> timestamp option \<times> timestamp \<times> bool" where
  "interval_of c = (cr_effective_from c, cr_effective_to c, cr_is_current c)"


text \<open>
  The point-in-time reading of a dimension row's validity that the specification asks
  for: the half-open interval from \<open>effective_from\<close> to \<open>effective_to\<close> contains the
  instant, or midnight of the day.
\<close>

definition half_open_interval_contains :: "dim_student \<Rightarrow> timestamp \<Rightarrow> bool" where
  "half_open_interval_contains d t =
     (is_true (sql_le (ds_effective_from d) (Some t)) \<and> t < ds_effective_to d)"


definition effective_on :: "dim_student \<Rightarrow> date \<Rightarrow> bool" where
  "effective_on d day = half_open_interval_contains d (TIMESTAMP_of_date day)"

text \<open>
  A dimension row without the columns that a run regenerates: the surrogate key and the
  audit timestamps; and also without the columns that follow the run's date and target.
\<close>

definition ignoring_key_and_audit :: "dim_student \<Rightarrow> dim_student" where
  "ignoring_key_and_audit d = d\<lparr> ds_student_key := [], ds_dwh_created_at := 0, ds_dwh_updated_at := 0 \<rparr>"

definition ignoring_run_columns :: "dim_student \<Rightarrow> dim_student" where
  "ignoring_run_columns d =
     (ignoring_key_and_audit d)\<lparr> ds_age := None, ds_age_group := [], ds_record_source := [] \<rparr>"


section \<open>Three-valued conditions\<close>

lemma is_true_sql_and: "is_true (sql_and a b) = (is_true a \<and> is_true b)"
  by (cases a; cases b) (auto simp: is_true_def sql_and_def)

lemma is_true_sql_or: "is_true (sql_or a b) = (is_true a \<or> is_true b)"
  by (cases a; cases b) (auto simp: is_true_def sql_or_def)

lemma is_true_sql_ge: "is_true (sql_ge a (Some c)) = (\<exists>v. a = Some v \<and> c \<le> v)"
  by (cases a) (auto simp: is_true_def sql_ge_def sql_cmp_def)

lemma is_true_sql_le: "is_true (sql_le a (Some c)) = (\<exists>v. a = Some v \<and> v \<le> c)"
  by (cases a) (auto simp: is_true_def sql_le_def sql_cmp_def)

lemma is_true_sql_lt: "is_true (sql_lt a (Some c)) = (\<exists>v. a = Some v \<and> v < c)"
  by (cases a) (auto simp: is_true_def sql_lt_def sql_cmp_def)

lemma is_true_sql_eq: "is_true (sql_eq a b) = (a \<noteq> None \<and> a = b)"
  by (cases a; cases b) (auto simp: is_true_def sql_eq_def sql_cmp_def)

lemma is_true_sql_neq: "is_true (sql_neq a b) = (a \<noteq> None \<and> b \<noteq> None \<and> a \<noteq> b)"
  by (cases a; cases b) (auto simp: is_true_def sql_neq_def sql_cmp_def)

lemma is_true_IS_NULL: "is_true (IS_NULL a) = (a = None)"
  by (simp add: is_true_def IS_NULL_def)

lemma is_true_Some: "is_true (Some b) = b"
  by (simp add: is_true_def)

lemma is_true_None: "is_true None = False"
  by (simp add: is_true_def)

lemma is_true_sql_in: "is_true (sql_in a vs) = (\<exists>x. a = Some x \<and> x \<in> set vs)"
  by (cases a) (auto simp: is_true_def sql_in_def)

lemmas sql_simps =
  is_true_sql_and is_true_sql_or is_true_sql_ge is_true_sql_le is_true_sql_lt is_true_sql_eq
  is_true_sql_neq is_true_IS_NULL is_true_Some is_true_None is_true_sql_in

lemma in_set_enumerateD: "(i, a) \<in> set (enumerate n xs) \<Longrightarrow> a \<in> set xs"
  by (induction xs arbitrary: n) auto

lemma floor_rat_numeral_divide: "\<lfloor>numeral a / numeral b :: rat\<rfloor> = numeral a div numeral b"
  using floor_divide_of_int_eq[of "numeral a" "numeral b", where ?'a = rat] by simp

lemma map_singletonD: "map f xs = [v] \<Longrightarrow> xs \<noteq> [] \<and> hd xs \<in> set xs \<and> f (hd xs) = v"
  by (cases xs) auto

lemma map_pairD:
  "map f xs = [u, v] \<Longrightarrow> xs ! 0 \<in> set xs \<and> f (xs ! 0) = u \<and> xs ! 1 \<in> set xs \<and> f (xs ! 1) = v"
  by (cases xs; cases "tl xs") auto

section \<open>The equity mart\<close>

lemmas equity_defs =
  equity_metrics_def sufficient_data_def equity_analysis_def stratum_def group_of_def
  equity_analysis_of_def count_where_def avg_where_def SQL_SUM_def SQL_AVG_def
  List.map_filter_simps is_low_income_def has_disability_flag_def is_rural_area_def
  SAFE_DIVIDE_def NULLIF_def equity_metric_of_def enumerate_eq_zip sql_minus_def
  equitable_def ROUND_2_def floor_rat_numeral_divide

text \<open>Every row of the mart is computed from a row of \<open>equity_analysis\<close> that passed the WHERE clause.\<close>

lemma equity_metrics_rows:
  assumes "m \<in> set (equity_metrics env sm)"
  shows "\<exists>i a. a \<in> set (equity_analysis sm) \<and> sufficient_data a \<and> m = equity_metric_of env i a"
proof -
  from assms obtain p where p: "p \<in> set (enumerate 0 (filter sufficient_data (equity_analysis sm)))"
    and m: "m = (case p of (i, a) \<Rightarrow> equity_metric_of env i a)"
    by (auto simp: equity_metrics_def)
  obtain i a where ia: "p = (i, a)" by (cases p)
  with p have "a \<in> set (filter sufficient_data (equity_analysis sm))"
    by (auto dest: in_set_enumerateD)
  with m ia show ?thesis by auto
qed

text \<open>A group has at least one stratum, so its conditional counts are never NULL.\<close>

lemma count_where_Some:
  assumes "rows \<noteq> []"
  shows "count_where c rows = Some (sum_list (map (\<lambda>r. if c r then sm_student_count r else 0) rows))"
proof -
  have "List.map_filter (\<lambda>x. x) (map (\<lambda>r. if c r then Some (sm_student_count r) else Some 0) rows)
        = map (\<lambda>r. if c r then sm_student_count r else 0) rows"
    by (induction rows) (auto simp: List.map_filter_simps)
  with assms show ?thesis
    by (cases rows) (auto simp: count_where_def SQL_SUM_def split: list.splits)
qed

text \<open>A row of \<open>equity_analysis\<close> is determined by its group.\<close>

lemma equity_analysis_rows:
  assumes "a \<in> set (equity_analysis sm)"
  shows "\<exists>rows. rows \<noteq> [] \<and> a = equity_analysis_of (ea_group a) rows \<and>
                rows = filter (\<lambda>r. group_of r = ea_group a) sm"
proof -
  from assms obtain g where g: "g \<in> set (map group_of sm)"
    and a: "a = equity_analysis_of g (filter (\<lambda>r. group_of r = g) sm)"
    by (auto simp: equity_analysis_def)
  have "ea_group a = g" using a by (simp add: equity_analysis_of_def)
  moreover from g have "filter (\<lambda>r. group_of r = g) sm \<noteq> []"
    by (auto simp: filter_empty_conv)
  ultimately show ?thesis using a by auto
qed

lemma group_suppressed:
  assumes a: "a \<in> set (equity_analysis sm)" and n: "\<not> sufficient_data a"
    and m: "m \<in> set (equity_metrics env sm)"
  shows "em_group m \<noteq> ea_group a"
proof
  assume eq: "em_group m = ea_group a"
  from equity_metrics_rows[OF m] obtain i a' where
    a': "a' \<in> set (equity_analysis sm)" and s: "sufficient_data a'" and me: "m = equity_metric_of env i a'"
    by blast
  from me eq have g: "ea_group a' = ea_group a" by (simp add: equity_metric_of_def)
  from equity_analysis_rows[OF a] equity_analysis_rows[OF a'] g have "a = a'" by metis
  with s n show False by simp
qed

lemma few_girls_insufficient:
  assumes "ea_female_count a = Some n" and "n < 5"
  shows "\<not> sufficient_data a"
  using assms by (auto simp: sufficient_data_def sql_simps)

text \<open>
  C5 (as the claim states it, refuted). The group of three girls and ten boys has
  thirteen students and an overall average of 76, and the mart emits no row for it: the
  overall average is suppressed together with the gender figures.
\<close>

theorem three_girls_group_emits_no_overall_average:
  "equity_metrics run_A group_three_girls = [] \<and>
   map ea_total_students (equity_analysis group_three_girls) = [Some 13] \<and>
   map ea_female_count (equity_analysis group_three_girls) = [Some 3] \<and>
   map ea_overall_avg_performance (equity_analysis group_three_girls) = [Some 76]"
  by (simp add: equity_defs sql_simps group_three_girls_def)

text \<open>
  C5 (amended). Every row the mart emits belongs to a group with at least 10 students,
  at least 5 female, 5 male and 5 low-income students, at least 3 students with a
  disability, and either no rural student or at least 5; and a group of
  \<open>equity_analysis\<close> with fewer than 5 female students has no row in the mart at all.
\<close>

theorem equity_rows_meet_every_guard:
  assumes "m \<in> set (equity_metrics env sm)"
  shows "(\<exists>t f ma l d r.
            em_total_students m = Some t \<and> 10 \<le> t \<and>
            em_female_count m = Some f \<and> 5 \<le> f \<and>
            em_male_count m = Some ma \<and> 5 \<le> ma \<and>
            em_low_income_count m = Some l \<and> 5 \<le> l \<and>
            em_with_disability_count m = Some d \<and> 3 \<le> d \<and>
            em_rural_count m = Some r \<and> (5 \<le> r \<or> r = 0)) \<and>
         (\<forall>a n. a \<in> set (equity_analysis sm) \<and> ea_female_count a = Some n \<and> n < 5
                  \<longrightarrow> em_group m \<noteq> ea_group a)"
proof -
  from equity_metrics_rows[OF assms] obtain i a where
    a: "a \<in> set (equity_analysis sm)" and s: "sufficient_data a" and m: "m = equity_metric_of env i a"
    by blast
  from equity_analysis_rows[OF a] obtain rows where
    r: "rows \<noteq> []" and ar: "a = equity_analysis_of (ea_group a) rows"
    by blast
  have li: "ea_low_income_count a \<noteq> None" and wd: "ea_with_disability_count a \<noteq> None"
    by (subst ar, simp add: equity_analysis_of_def count_where_Some[OF r])+
  from s li wd have guards: "\<exists>t f ma l d r.
            em_total_students m = Some t \<and> 10 \<le> t \<and>
            em_female_count m = Some f \<and> 5 \<le> f \<and>
            em_male_count m = Some ma \<and> 5 \<le> ma \<and>
            em_low_income_count m = Some l \<and> 5 \<le> l \<and>
            em_with_disability_count m = Some d \<and> 3 \<le> d \<and>
            em_rural_count m = Some r \<and> (5 \<le> r \<or> r = 0)"
    unfolding m sufficient_data_def
    by (auto simp: sql_simps equity_metric_of_def)
  have "em_group m \<noteq> ea_group b" if "b \<in> set (equity_analysis sm)"
    and "ea_female_count b = Some n" and "n < 5" for b n
    using group_suppressed[OF that(1) few_girls_insufficient[OF that(2,3)] assms] .
  with guards show ?thesis by blast
qed

theorem equity_rows_meet_every_guard_witness:
  "map (\<lambda>m. (em_total_students m, em_female_count m)) (equity_metrics run_A group_mixed)
     = [(Some 16, Some 6)] \<and>
   map ea_female_count (equity_analysis group_mixed) = [Some 6, Some 3] \<and>
   em_group (hd (equity_metrics run_A group_mixed)) \<noteq> ea_group (equity_analysis group_mixed ! 1)"
proof -
  have e1: "map (\<lambda>m. (em_total_students m, em_female_count m)) (equity_metrics run_A group_mixed)
              = [(Some 16, Some 6)]"
    by (simp add: equity_defs sql_simps group_mixed_def group_72_80_def group_three_girls_def)
  have e2: "map ea_female_count (equity_analysis group_mixed) = [Some 6, Some 3]"
    by (simp add: equity_defs sql_simps group_mixed_def group_72_80_def group_three_girls_def)
  from map_singletonD[OF e1]
  have m: "hd (equity_metrics run_A group_mixed) \<in> set (equity_metrics run_A group_mixed)"
    by blast
  from map_pairD[OF e2] have a: "equity_analysis group_mixed ! 1 \<in> set (equity_analysis group_mixed)"
    and c: "ea_female_count (equity_analysis group_mixed ! 1) = Some 3"
    by blast+
  from equity_rows_meet_every_guard[OF m]
  have "\<forall>a n. a \<in> set (equity_analysis group_mixed) \<and> ea_female_count a = Some n \<and> n < 5
                  \<longrightarrow> em_group (hd (equity_metrics run_A group_mixed)) \<noteq> ea_group a"
    by blast
  moreover have "(3::int) < 5" by simp
  ultimately have "em_group (hd (equity_metrics run_A group_mixed))
                     \<noteq> ea_group (equity_analysis group_mixed ! 1)"
    using a c by blast
  with e1 e2 show ?thesis by simp
qed

text \<open>\<open>ROUND(x, 2)\<close> moves a value by at most half a hundredth.\<close>

lemma ROUND_2_close: "\<bar>ROUND_2 x - x\<bar> \<le> 1 / 200"
proof -
  define n where "n = \<lfloor>\<bar>x\<bar> * 100 + 1 / 2\<rfloor>"
  have lo: "of_int n \<le> \<bar>x\<bar> * 100 + 1 / 2" unfolding n_def by (rule of_int_floor_le)
  have hi: "\<bar>x\<bar> * 100 + 1 / 2 < of_int n + 1"
    using floor_correct[of "\<bar>x\<bar> * 100 + 1 / 2"] by (simp add: n_def)
  have r: "ROUND_2 x = sgn x * of_int n / 100" by (simp add: ROUND_2_def n_def)
  consider "x = 0" | "0 < x" | "x < 0" by linarith
  then show ?thesis
  proof cases
    case 1
    then show ?thesis by (simp add: ROUND_2_def)
  next
    case 2
    then have e: "ROUND_2 x = of_int n / 100" by (simp add: r)
    have a: "of_int n / 100 - x \<le> 1 / 200" using lo 2 by linarith
    have b: "x - of_int n / 100 \<le> 1 / 200" using hi 2 by linarith
    show ?thesis unfolding e using a b by linarith
  next
    case 3
    then have e: "ROUND_2 x = - (of_int n / 100)" by (simp add: r)
    have a: "- (of_int n / 100) - x \<le> 1 / 200" using hi 3 by linarith
    have b: "x + of_int n / 100 \<le> 1 / 200" using lo 3 by linarith
    show ?thesis unfolding e using a b by linarith
  qed
qed

text \<open>
  C6 (as the claim states it, refuted). In a group whose male students average 80.005 and
  whose female students average 72.004 the mart reports the averages 80.01 and 72 and the
  gender gap 8: neither the difference 8.001 of the averages nor the difference 8.01 of
  the reported averages.
\<close>

theorem gender_gap_is_not_the_plain_difference:
  "map (\<lambda>m. (em_male_avg_performance m, em_female_avg_performance m, em_gender_gap m))
       (equity_metrics run_A group_fractions)
     = [(Some (8001 / 100), Some 72, Some 8)] \<and>
   map (\<lambda>a. sql_minus (ea_male_avg_performance a) (ea_female_avg_performance a))
       (equity_analysis group_fractions)
     = [Some (8001 / 1000)]"
  by (simp add: equity_defs sql_simps group_fractions_def)

text \<open>
  C6 (amended). Every gap the mart reports is the advantaged average minus the
  disadvantaged average of its group, in the fixed order male - female, non-low-income -
  low-income, without disability - with disability, urban - rural, rounded to two
  decimals, and NULL when either average is NULL. Each \<open>is_*_equitable\<close> flag is 1 exactly
  when both averages exist and their difference is at most 5 in absolute value. For a
  group whose advantaged average is 80 and whose disadvantaged average is 72 the gap is
  exactly 8 and the flag is 0.
\<close>

theorem equity_gaps_are_advantaged_minus_disadvantaged_rounded:
  assumes "m \<in> set (equity_metrics env sm)"
  shows "\<exists>a \<in> set (equity_analysis sm).
           em_group m = ea_group a \<and>
           em_gender_gap m =
             map_option ROUND_2
               (sql_minus (ea_male_avg_performance a) (ea_female_avg_performance a)) \<and>
           em_income_gap m =
             map_option ROUND_2
               (sql_minus (ea_non_low_income_avg_performance a) (ea_low_income_avg_performance a)) \<and>
           em_disability_gap m =
             map_option ROUND_2
               (sql_minus (ea_without_disability_avg_performance a)
                          (ea_with_disability_avg_performance a)) \<and>
           em_urban_rural_gap m =
             map_option ROUND_2
               (sql_minus (ea_urban_avg_performance a) (ea_rural_avg_performance a)) \<and>
           em_is_gender_equitable m =
             (if \<exists>x y. ea_male_avg_performance a = Some x \<and>
                        ea_female_avg_performance a = Some y \<and> \<bar>x - y\<bar> \<le> 5
              then 1 else 0) \<and>
           em_is_income_equitable m =
             (if \<exists>x y. ea_non_low_income_avg_performance a = Some x \<and>
                        ea_low_income_avg_performance a = Some y \<and> \<bar>x - y\<bar> \<le> 5
              then 1 else 0) \<and>
           em_is_disability_equitable m =
             (if \<exists>x y. ea_without_disability_avg_performance a = Some x \<and>
                        ea_with_disability_avg_performance a = Some y \<and> \<bar>x - y\<bar> \<le> 5
              then 1 else 0) \<and>
           em_is_location_equitable m =
             (if \<exists>x y. ea_urban_avg_performance a = Some x \<and>
                        ea_rural_avg_performance a = Some y \<and> \<bar>x - y\<bar> \<le> 5
              then 1 else 0) \<and>
           (ea_male_avg_performance a = Some 80 \<and> ea_female_avg_performance a = Some 72
              \<longrightarrow> em_gender_gap m = Some 8 \<and> em_is_gender_equitable m = 0) \<and>
           (ea_non_low_income_avg_performance a = Some 80 \<and>
            ea_low_income_avg_performance a = Some 72
              \<longrightarrow> em_income_gap m = Some 8 \<and> em_is_income_equitable m = 0) \<and>
           (ea_without_disability_avg_performance a = Some 80 \<and>
            ea_with_disability_avg_performance a = Some 72
              \<longrightarrow> em_disability_gap m = Some 8 \<and> em_is_disability_equitable m = 0) \<and>
           (ea_urban_avg_performance a = Some 80 \<and> ea_rural_avg_performance a = Some 72
              \<longrightarrow> em_urban_rural_gap m = Some 8 \<and> em_is_location_equitable m = 0)"
proof -
  from equity_metrics_rows[OF assms] obtain i a where
    a: "a \<in> set (equity_analysis sm)" and m: "m = equity_metric_of env i a"
    by blast
  have eq: "equitable p q = (if \<exists>x y. p = Some x \<and> q = Some y \<and> \<bar>x - y\<bar> \<le> 5 then 1 else 0)"
    for p q
    by (cases p; cases q) (auto simp: equitable_def sql_minus_def sql_simps)
  have r8: "ROUND_2 8 = 8" by (simp add: ROUND_2_def floor_rat_numeral_divide)
  show ?thesis
    by (rule bexI[OF _ a]) (simp add: m equity_metric_of_def eq sql_minus_def r8)
qed

theorem equity_gaps_are_advantaged_minus_disadvantaged_rounded_witness:
  "map (\<lambda>m. (em_male_avg_performance m, em_female_avg_performance m, em_gender_gap m,
              em_is_gender_equitable m))
       (equity_metrics run_A group_72_80)
     = [(Some 80, Some 72, Some 8, 0)] \<and>
   (\<exists>a \<in> set (equity_analysis group_72_80).
      em_group (hd (equity_metrics run_A group_72_80)) = ea_group a \<and>
      em_gender_gap (hd (equity_metrics run_A group_72_80)) =
        map_option ROUND_2 (sql_minus (ea_male_avg_performance a) (ea_female_avg_performance a)))"
proof -
  have e: "map (\<lambda>m. (em_male_avg_performance m, em_female_avg_performance m, em_gender_gap m,
                     em_is_gender_equitable m))
              (equity_metrics run_A group_72_80)
             = [(Some 80, Some 72, Some 8, 0)]"
    by (simp add: equity_defs sql_simps group_72_80_def)
  from map_singletonD[OF e]
  have m: "hd (equity_metrics run_A group_72_80) \<in> set (equity_metrics run_A group_72_80)"
    by blast
  from equity_gaps_are_advantaged_minus_disadvantaged_rounded[OF m] e show ?thesis
    by blast
qed

section \<open>Window functions\<close>

lemma filter_enumerate_later: "Suc 0 < n \<Longrightarrow> filter (\<lambda>(i, x). i = Suc 0) (enumerate n xs) = []"
  by (induction xs arbitrary: n) auto

lemma enumerate_first:
  "xs \<noteq> [] \<Longrightarrow> map snd (filter (\<lambda>(n, x). n = Suc 0) (enumerate (Suc 0) xs)) = [hd xs]"
  by (cases xs) (auto simp: filter_enumerate_later)

lemma sorted_le_last: "sorted xs \<Longrightarrow> x \<in> set xs \<Longrightarrow> x \<le> (last xs :: 'a::linorder)"
  by (induction xs) auto

lemma set_ORDER_BY_DESC [simp]: "set (ORDER_BY_DESC ok xs) = set xs"
  by (simp add: ORDER_BY_DESC_def)

lemma ORDER_BY_DESC_Nil [simp]: "(ORDER_BY_DESC ok xs = []) = (xs = [])"
  by (metis ORDER_BY_DESC_def length_0_conv length_rev length_sort)

lemma hd_ORDER_BY_DESC:
  assumes "xs \<noteq> []"
  shows "hd (ORDER_BY_DESC ok xs) \<in> set xs"
    and "x \<in> set xs \<Longrightarrow> ok x \<le> ok (hd (ORDER_BY_DESC ok xs))"
proof -
  let ?ys = "sort_key ok (rev xs)"
  have ne: "?ys \<noteq> []" using assms by (metis length_sort length_rev length_0_conv)
  have h: "hd (ORDER_BY_DESC ok xs) = last ?ys"
    using ne by (simp add: ORDER_BY_DESC_def hd_rev)
  show "hd (ORDER_BY_DESC ok xs) \<in> set xs"
    using last_in_set[OF ne] by (simp add: h)
  assume "x \<in> set xs"
  then have "ok x \<in> set (map ok ?ys)" by simp
  moreover have "sorted (map ok ?ys)" by simp
  moreover have "map ok ?ys \<noteq> []" using ne by simp
  ultimately have "ok x \<le> last (map ok ?ys)" by (metis sorted_le_last)
  then show "ok x \<le> ok (hd (ORDER_BY_DESC ok xs))"
    using ne by (simp add: h last_map)
qed

lemma concat_map_singletons:
  "(\<And>k. k \<in> set ks \<Longrightarrow> g k = [f k]) \<Longrightarrow> concat (map g ks) = map f ks"
  by (induction ks) auto

lemma rows_numbered_1:
  "map snd (filter (\<lambda>(n, x). n = Suc 0) (ROW_NUMBER_DESC pk ok rows))
     = map (first_of pk ok rows) (remdups (map pk rows))"
proof -
  have "map snd (filter (\<lambda>(n, x). n = Suc 0)
           (enumerate (Suc 0) (ORDER_BY_DESC ok (filter (\<lambda>r. pk r = k) rows))))
          = [first_of pk ok rows k]"
    if "k \<in> set (remdups (map pk rows))" for k
  proof -
    from that have "filter (\<lambda>r. pk r = k) rows \<noteq> []" by (auto simp: filter_empty_conv)
    then show ?thesis by (simp add: enumerate_first first_of_def)
  qed
  from concat_map_singletons[of "remdups (map pk rows)" _ "first_of pk ok rows", OF this]
  show ?thesis
    by (simp add: ROW_NUMBER_DESC_def filter_concat map_concat comp_def)
qed

lemma first_of_props:
  assumes "k \<in> set (map pk rows)"
  shows "first_of pk ok rows k \<in> set rows" and "pk (first_of pk ok rows k) = k"
    and "r \<in> set rows \<Longrightarrow> pk r = k \<Longrightarrow> ok r \<le> ok (first_of pk ok rows k)"
proof -
  from assms have ne: "filter (\<lambda>r. pk r = k) rows \<noteq> []" by (auto simp: filter_empty_conv)
  from hd_ORDER_BY_DESC(1)[OF ne, of ok]
  show "first_of pk ok rows k \<in> set rows" and "pk (first_of pk ok rows k) = k"
    by (auto simp: first_of_def)
  assume "r \<in> set rows" "pk r = k"
  then have "r \<in> set (filter (\<lambda>r. pk r = k) rows)" by simp
  from hd_ORDER_BY_DESC(2)[OF ne this, of ok]
  show "ok r \<le> ok (first_of pk ok rows k)" by (simp add: first_of_def)
qed


section \<open>The dimension and fact models on the example tables\<close>

lemmas dim_defs =
  dim_students_def changed_records_def student_updates_def student_partition_def
  List.map_filter_simps is_changed_def changed_record_of_def dim_student_of_def row_hash_of_def
  enumerate_eq_zip COALESCE_def TIMESTAMP_of_date_def INTERVAL_1_SECOND_def
  TIMESTAMP_9999_12_31_23_59_59_def student_row_def example_engine_def run_A_def run_B_def
  age_of_def age_group_of_def standardized_gender_of_def has_disability_of_def area_type_of_def
  Let_def

text \<open>The same without the example engine and runs and without the derived attributes.\<close>

lemmas dim_defs_any_engine =
  dim_students_def changed_records_def student_updates_def student_partition_def
  List.map_filter_simps is_changed_def changed_record_of_def dim_student_of_def row_hash_of_def
  enumerate_eq_zip COALESCE_def TIMESTAMP_of_date_def INTERVAL_1_SECOND_def
  TIMESTAMP_9999_12_31_23_59_59_def student_row_def Let_def

lemma dims_AB:
  "map (\<lambda>d. (ds_student_id d, ds_district d, ds_socioeconomic_status d, ds_effective_from d, ds_effective_to d, ds_is_current d))
       (dim_students example_engine run_A students_A_then_B)
     = [(Some 1, Some ''A'', Some ''Low'', Some 1704067200000000, 1717199999000000, False),
        (Some 1, Some ''B'', Some ''High'', Some 1717200000000000, 253402300799000000, True)]"
  by (simp add: dim_defs sql_simps students_A_then_B_def)

lemma si_AB:
  "student_info (dim_students example_engine run_A students_A_then_B) =
     [\<lparr> si_student_id = Some 1, si_student_name = Some ''Amina Rahman'', si_student_gender = ''Female'',
        si_student_age_group = ''25+'', si_socioeconomic_status = Some ''High'', si_has_disability = False,
        si_is_current = True \<rparr>]"
  by (simp add: student_info_def dim_defs sql_simps students_A_then_B_def)


lemmas fact_defs =
  fct_assessment_results_def ROW_NUMBER_DESC_def ORDER_BY_DESC_def enriched_results_def
  assessment_results_def in_load_window_def enrich_def LEFT_JOIN_def teacher_info_def
  school_info_def enriched_row_def not_yet_loaded_def result_row_def enumerate_eq_zip
  standardized_grade_of_def calculated_percentage_of_def performance_category_of_def
  is_passed_indicator_of_def is_good_performance_of_def normalized_score_of_def
  SAFE_DIVIDE_def NULLIF_def TIMESTAMP_of_date_def


section \<open>The fact builder\<close>

lemma in_LEFT_JOIN:
  "x \<in> set (LEFT_JOIN on bs) \<longleftrightarrow>
     (x = None \<and> (\<forall>b\<in>set bs. \<not> is_true (on b))) \<or> (\<exists>b\<in>set bs. is_true (on b) \<and> x = Some b)"
proof (cases "filter (\<lambda>b. is_true (on b)) bs")
  case Nil
  then show ?thesis by (auto simp: LEFT_JOIN_def filter_empty_conv)
next
  case (Cons m ms)
  then have "set (m # ms) = {b \<in> set bs. is_true (on b)}" by (metis set_filter)
  with Cons show ?thesis by (auto simp: LEFT_JOIN_def)
qed


lemma in_enrich:
  "f \<in> set (enrich eng env ds ts ss subs ar) \<longleftrightarrow>
     (\<exists>si \<in> set (LEFT_JOIN (\<lambda>s. sql_eq (ar_student_id ar) (si_student_id s)) (student_info ds)).
      \<exists>ti \<in> set (LEFT_JOIN (\<lambda>t. sql_eq (ar_teacher_id ar) (dt_teacher_id t)) (teacher_info ts)).
      \<exists>sch \<in> set (LEFT_JOIN (\<lambda>s. sql_eq (ar_school_id ar) (dsch_school_id s)) (school_info ss)).
      \<exists>sub \<in> set (LEFT_JOIN (\<lambda>s. sql_eq (ar_subject_id ar) (dsub_subject_id s)) subs).
        f = enriched_row eng env ar si ti sch sub)"
  by (auto simp: enrich_def)


lemma f_ar_enrich: "f \<in> set (enrich eng env ds ts ss subs ar) \<Longrightarrow> f_ar f = ar"
  by (auto simp: in_enrich enriched_row_def)

lemma enriched_results_eq:
  "enriched_results eng env inc stg ds ts ss subs =
     concat (map (\<lambda>k. enrich eng env ds ts ss subs (latest_version eng env inc stg k))
                 (remdups (map ar_assessment_result_id (taken_up eng env inc stg))))"
proof -
  have a: "map (\<lambda>(n, ar). enrich eng env ds ts ss subs ar) xs
             = map (enrich eng env ds ts ss subs) (map snd xs)"
    for xs :: "(nat \<times> assessment_result) list"
    by (simp add: case_prod_beta comp_def)
  show ?thesis
    unfolding enriched_results_def assessment_results_def One_nat_def
    by (subst a, subst rows_numbered_1) (simp add: taken_up_def latest_version_def comp_def)
qed

lemma in_enriched_results:
  "f \<in> set (enriched_results eng env inc stg ds ts ss subs) \<longleftrightarrow>
     (\<exists>k \<in> set (map ar_assessment_result_id (taken_up eng env inc stg)).
        f \<in> set (enrich eng env ds ts ss subs (latest_version eng env inc stg k)))"
  by (auto simp: enriched_results_eq)

lemma latest_version_props:
  assumes "k \<in> set (map ar_assessment_result_id (taken_up eng env inc stg))"
  shows "latest_version eng env inc stg k \<in> set stg"
    and "in_load_window eng env inc (latest_version eng env inc stg k)"
    and "ar_assessment_result_id (latest_version eng env inc stg k) = k"
    and "s \<in> set stg \<Longrightarrow> in_load_window eng env inc s \<Longrightarrow> ar_assessment_result_id s = k
           \<Longrightarrow> ar_recorded_at s \<le> ar_recorded_at (latest_version eng env inc stg k)"
proof -
  from first_of_props(1)[OF assms, of ar_recorded_at]
  show "latest_version eng env inc stg k \<in> set stg"
    and "in_load_window eng env inc (latest_version eng env inc stg k)"
    by (auto simp: latest_version_def taken_up_def)
  from first_of_props(2)[OF assms, of ar_recorded_at]
  show "ar_assessment_result_id (latest_version eng env inc stg k) = k"
    by (simp add: latest_version_def)
  assume "s \<in> set stg" "in_load_window eng env inc s" "ar_assessment_result_id s = k"
  then have "s \<in> set (taken_up eng env inc stg)" by (simp add: taken_up_def)
  from first_of_props(3)[OF assms this \<open>ar_assessment_result_id s = k\<close>, of ar_recorded_at]
  show "ar_recorded_at s \<le> ar_recorded_at (latest_version eng env inc stg k)"
    by (simp add: latest_version_def)
qed

lemma set_fct:
  "set (fct_assessment_results eng env target stg ds ts ss subs) =
     first_of (\<lambda>f. ar_assessment_result_id (f_ar f)) (\<lambda>f. ar_recorded_at (f_ar f))
              (selected eng env target stg ds ts ss subs)
       ` set (map (\<lambda>f. ar_assessment_result_id (f_ar f)) (selected eng env target stg ds ts ss subs))"
  unfolding fct_assessment_results_def One_nat_def selected_def[symmetric]
  by (simp only: rows_numbered_1 set_sort set_map set_remdups)

lemma fct_subset_selected:
  assumes "f \<in> set (fct_assessment_results eng env target stg ds ts ss subs)"
  shows "f \<in> set (selected eng env target stg ds ts ss subs)"
proof -
  from assms obtain k where k: "k \<in> set (map (\<lambda>f. ar_assessment_result_id (f_ar f)) (selected eng env target stg ds ts ss subs))"
    and f: "f = first_of (\<lambda>f. ar_assessment_result_id (f_ar f)) (\<lambda>f. ar_recorded_at (f_ar f))
              (selected eng env target stg ds ts ss subs) k"
    unfolding set_fct by blast
  from first_of_props(1)[OF k] f show ?thesis by simp
qed


lemma fct_row:
  assumes "f \<in> set (fct_assessment_results eng env target stg ds ts ss subs)"
  shows "\<exists>k \<in> set (map ar_assessment_result_id (taken_up eng env (target \<noteq> None) stg)).
           f \<in> set (enrich eng env ds ts ss subs (latest_version eng env (target \<noteq> None) stg k)) \<and>
           f_ar f = latest_version eng env (target \<noteq> None) stg k \<and>
           not_yet_loaded eng env target k"
proof -
  from fct_subset_selected[OF assms]
  have e: "f \<in> set (enriched_results eng env (target \<noteq> None) stg ds ts ss subs)"
    and n: "not_yet_loaded eng env target (ar_assessment_result_id (f_ar f))"
    by (auto simp: selected_def)
  from e obtain k where k: "k \<in> set (map ar_assessment_result_id (taken_up eng env (target \<noteq> None) stg))"
    and fe: "f \<in> set (enrich eng env ds ts ss subs (latest_version eng env (target \<noteq> None) stg k))"
    unfolding in_enriched_results by blast
  from f_ar_enrich[OF fe] have fa: "f_ar f = latest_version eng env (target \<noteq> None) stg k" .
  with latest_version_props(3)[OF k] n have "not_yet_loaded eng env target k" by simp
  with k fe fa show ?thesis by blast
qed

lemma student_info_ignores_effective_dates:
  "student_info (map (\<lambda>d. d\<lparr> ds_effective_from := a d, ds_effective_to := b d \<rparr>) ds) = student_info ds"
  by (simp add: student_info_def filter_map comp_def)

lemma joined_student:
  assumes "si \<in> set (LEFT_JOIN (\<lambda>s. sql_eq i (si_student_id s)) (student_info ds))"
  shows "(\<exists>d \<in> set ds. ds_is_current d \<and> is_true (sql_eq i (ds_student_id d)) \<and>
            Option.bind si si_student_name = ds_full_name d \<and>
            map_option si_student_gender si = Some (ds_gender d) \<and>
            map_option si_student_age_group si = Some (ds_age_group d) \<and>
            Option.bind si si_socioeconomic_status = ds_socioeconomic_status d \<and>
            map_option si_has_disability si = Some (ds_has_disability d)) \<or>
         ((\<forall>d \<in> set ds. ds_is_current d \<longrightarrow> \<not> is_true (sql_eq i (ds_student_id d))) \<and> si = None)"
proof -
  from assms consider
    (none) "si = None" "\<forall>b\<in>set (student_info ds). \<not> is_true (sql_eq i (si_student_id b))"
    | (some) b where "b \<in> set (student_info ds)" "is_true (sql_eq i (si_student_id b))" "si = Some b"
    unfolding in_LEFT_JOIN by blast
  then show ?thesis
  proof cases
    case none
    have "\<not> is_true (sql_eq i (ds_student_id d))" if "d \<in> set ds" "ds_is_current d" for d
    proof -
      from that have "\<lparr> si_student_id = ds_student_id d, si_student_name = ds_full_name d,
              si_student_gender = ds_gender d, si_student_age_group = ds_age_group d,
              si_socioeconomic_status = ds_socioeconomic_status d,
              si_has_disability = ds_has_disability d, si_is_current = ds_is_current d \<rparr> \<in> set (student_info ds)"
        by (simp add: student_info_def)
      from none(2)[rule_format, OF this] show ?thesis by simp
    qed
    with none(1) show ?thesis by blast
  next
    case some
    from some(1) obtain d where d: "d \<in> set ds" "ds_is_current d"
      and b: "b = \<lparr> si_student_id = ds_student_id d, si_student_name = ds_full_name d,
              si_student_gender = ds_gender d, si_student_age_group = ds_age_group d,
              si_socioeconomic_status = ds_socioeconomic_status d,
              si_has_disability = ds_has_disability d, si_is_current = ds_is_current d \<rparr>"
      unfolding student_info_def by auto
    from some(2) have "is_true (sql_eq i (ds_student_id d))" by (simp add: b)
    moreover have "Option.bind si si_student_name = ds_full_name d"
            "map_option si_student_gender si = Some (ds_gender d)"
            "map_option si_student_age_group si = Some (ds_age_group d)"
            "Option.bind si si_socioeconomic_status = ds_socioeconomic_status d"
            "map_option si_has_disability si = Some (ds_has_disability d)"
      by (simp_all add: some(3) b)
    ultimately show ?thesis using d by blast
  qed
qed


lemma joined_teacher:
  assumes "ti \<in> set (LEFT_JOIN (\<lambda>t. sql_eq i (dt_teacher_id t)) (teacher_info ts))"
  shows "(\<exists>t \<in> set ts. is_true (sql_eq (dt_is_current t) (Some True)) \<and>
            is_true (sql_eq i (dt_teacher_id t)) \<and> ti = Some t) \<or>
         ((\<forall>t \<in> set ts. is_true (sql_eq (dt_is_current t) (Some True)) \<longrightarrow>
             \<not> is_true (sql_eq i (dt_teacher_id t))) \<and> ti = None)"
  using assms unfolding in_LEFT_JOIN teacher_info_def by auto

lemma joined_school:
  assumes "sch \<in> set (LEFT_JOIN (\<lambda>s. sql_eq i (dsch_school_id s)) (school_info ss))"
  shows "(\<exists>s \<in> set ss. is_true (sql_eq (dsch_is_current s) (Some True)) \<and>
            is_true (sql_eq i (dsch_school_id s)) \<and> sch = Some s) \<or>
         ((\<forall>s \<in> set ss. is_true (sql_eq (dsch_is_current s) (Some True)) \<longrightarrow>
             \<not> is_true (sql_eq i (dsch_school_id s))) \<and> sch = None)"
  using assms unfolding in_LEFT_JOIN school_info_def by auto

lemma fct_row_columns:
  assumes "f \<in> set (fct_assessment_results eng env target stg ds ts ss subs)"
  shows "\<exists>si ti sch sub.
           si \<in> set (LEFT_JOIN (\<lambda>s. sql_eq (ar_student_id (f_ar f)) (si_student_id s)) (student_info ds)) \<and>
           ti \<in> set (LEFT_JOIN (\<lambda>t. sql_eq (ar_teacher_id (f_ar f)) (dt_teacher_id t)) (teacher_info ts)) \<and>
           sch \<in> set (LEFT_JOIN (\<lambda>s. sql_eq (ar_school_id (f_ar f)) (dsch_school_id s)) (school_info ss)) \<and>
           f = enriched_row eng env (f_ar f) si ti sch sub"
proof -
  from fct_row[OF assms] have "f \<in> set (enrich eng env ds ts ss subs (f_ar f))"
    by auto
  then show ?thesis unfolding in_enrich by blast
qed



text \<open>
  C1 (as the claim states it, refuted). Student 1 had socioeconomic status Low from
  2024-01-01 and has High since 2024-06-01. The fact of an assessment dated 2024-03-01
  carries High, the attribute of the current dimension row, while the dimension row whose
  interval contains 2024-03-01 says Low.
\<close>

theorem fact_dated_before_change_carries_later_attributes:
  "map f_socioeconomic_status
     (fct_assessment_results example_engine run_A None
        results_one_student
        (dim_students example_engine run_A students_A_then_B) [] [] [])
     = [Some ''High''] \<and>
   map ds_socioeconomic_status
     (filter (\<lambda>d. ds_student_id d = Some 1 \<and> effective_on d 19783)
        (dim_students example_engine run_A students_A_then_B))
     = [Some ''Low'']"
proof -
  have a: "map f_socioeconomic_status
     (fct_assessment_results example_engine run_A None
        results_one_student
        (dim_students example_engine run_A students_A_then_B) [] [] [])
     = [Some ''High'']"
    by (simp add: fact_defs si_AB sql_simps results_one_student_def)
  have b: "map ds_socioeconomic_status
     (filter (\<lambda>d. ds_student_id d = Some 1 \<and> effective_on d 19783)
        (dim_students example_engine run_A students_A_then_B))
     = [Some ''Low'']"
    by (simp add: dim_defs sql_simps students_A_then_B_def effective_on_def
        half_open_interval_contains_def)
  from a b show ?thesis by simp
qed


text \<open>
  C1 (amended). For every assessment fact row the Fact Builder emits, each referenced
  dimension (student, teacher, school) is resolved to a dimension row whose business key
  equals the fact's key and whose \<open>is_current\<close> flag is true, whatever the assessment date;
  when no current row has the key, the columns of that dimension are NULL. The effective
  interval of a dimension row is never consulted: replacing every \<open>effective_from\<close> and
  \<open>effective_to\<close> of \<open>dim_students\<close> leaves the fact table unchanged.
\<close>

theorem facts_join_to_current_dimension_rows:
  assumes "f \<in> set (fct_assessment_results eng env target stg ds ts ss subs)"
  shows "((\<exists>d \<in> set ds. ds_is_current d \<and>
             is_true (sql_eq (ar_student_id (f_ar f)) (ds_student_id d)) \<and>
             f_student_name f = ds_full_name d \<and>
             f_student_gender f = Some (ds_gender d) \<and>
             f_student_age_group f = Some (ds_age_group d) \<and>
             f_socioeconomic_status f = ds_socioeconomic_status d \<and>
             f_has_disability f = Some (ds_has_disability d)) \<or>
          ((\<forall>d \<in> set ds. ds_is_current d \<longrightarrow>
               \<not> is_true (sql_eq (ar_student_id (f_ar f)) (ds_student_id d))) \<and>
           f_student_name f = None \<and> f_student_gender f = None \<and>
           f_student_age_group f = None \<and> f_socioeconomic_status f = None \<and>
           f_has_disability f = None)) \<and>
         ((\<exists>t \<in> set ts. is_true (sql_eq (dt_is_current t) (Some True)) \<and>
             is_true (sql_eq (ar_teacher_id (f_ar f)) (dt_teacher_id t)) \<and>
             f_teacher_name f = dt_full_name t \<and>
             f_subject_specialization f = dt_subject_specialization t \<and>
             f_years_of_experience f = dt_years_of_experience t) \<or>
          ((\<forall>t \<in> set ts. is_true (sql_eq (dt_is_current t) (Some True)) \<longrightarrow>
               \<not> is_true (sql_eq (ar_teacher_id (f_ar f)) (dt_teacher_id t))) \<and>
           f_teacher_name f = None \<and> f_subject_specialization f = None \<and>
           f_years_of_experience f = None)) \<and>
         ((\<exists>s \<in> set ss. is_true (sql_eq (dsch_is_current s) (Some True)) \<and>
             is_true (sql_eq (ar_school_id (f_ar f)) (dsch_school_id s)) \<and>
             f_school_name f = dsch_school_name s \<and>
             f_school_type f = dsch_school_type s \<and>
             f_education_level f = dsch_education_level s \<and>
             f_is_rural f = dsch_is_rural s) \<or>
          ((\<forall>s \<in> set ss. is_true (sql_eq (dsch_is_current s) (Some True)) \<longrightarrow>
               \<not> is_true (sql_eq (ar_school_id (f_ar f)) (dsch_school_id s))) \<and>
           f_school_name f = None \<and> f_school_type f = None \<and>
           f_education_level f = None \<and> f_is_rural f = None)) \<and>
         fct_assessment_results eng env target stg
            (map (\<lambda>d. d\<lparr> ds_effective_from := vfrom d, ds_effective_to := vto d \<rparr>) ds) ts ss subs
          = fct_assessment_results eng env target stg ds ts ss subs"
proof -
  define a where "a = f_ar f"
  from fct_row_columns[OF assms] obtain si ti sch sub where
    si: "si \<in> set (LEFT_JOIN (\<lambda>s. sql_eq (ar_student_id a) (si_student_id s)) (student_info ds))"
    and ti: "ti \<in> set (LEFT_JOIN (\<lambda>t. sql_eq (ar_teacher_id a) (dt_teacher_id t)) (teacher_info ts))"
    and sch: "sch \<in> set (LEFT_JOIN (\<lambda>s. sql_eq (ar_school_id a) (dsch_school_id s)) (school_info ss))"
    and f: "f = enriched_row eng env a si ti sch sub"
    unfolding a_def by blast
  have cols: "f_student_name f = Option.bind si si_student_name"
    "f_student_gender f = map_option si_student_gender si"
    "f_student_age_group f = map_option si_student_age_group si"
    "f_socioeconomic_status f = Option.bind si si_socioeconomic_status"
    "f_has_disability f = map_option si_has_disability si"
    "f_teacher_name f = Option.bind ti dt_full_name"
    "f_subject_specialization f = Option.bind ti dt_subject_specialization"
    "f_years_of_experience f = Option.bind ti dt_years_of_experience"
    "f_school_name f = Option.bind sch dsch_school_name"
    "f_school_type f = Option.bind sch dsch_school_type"
    "f_education_level f = Option.bind sch dsch_education_level"
    "f_is_rural f = Option.bind sch dsch_is_rural"
    by (simp_all add: f enriched_row_def)
  have student: "(\<exists>d \<in> set ds. ds_is_current d \<and>
             is_true (sql_eq (ar_student_id a) (ds_student_id d)) \<and>
             f_student_name f = ds_full_name d \<and>
             f_student_gender f = Some (ds_gender d) \<and>
             f_student_age_group f = Some (ds_age_group d) \<and>
             f_socioeconomic_status f = ds_socioeconomic_status d \<and>
             f_has_disability f = Some (ds_has_disability d)) \<or>
          ((\<forall>d \<in> set ds. ds_is_current d \<longrightarrow>
               \<not> is_true (sql_eq (ar_student_id a) (ds_student_id d))) \<and>
           f_student_name f = None \<and> f_student_gender f = None \<and>
           f_student_age_group f = None \<and> f_socioeconomic_status f = None \<and>
           f_has_disability f = None)"
    using joined_student[OF si] unfolding cols by auto
  have teacher: "(\<exists>t \<in> set ts. is_true (sql_eq (dt_is_current t) (Some True)) \<and>
             is_true (sql_eq (ar_teacher_id a) (dt_teacher_id t)) \<and>
             f_teacher_name f = dt_full_name t \<and>
             f_subject_specialization f = dt_subject_specialization t \<and>
             f_years_of_experience f = dt_years_of_experience t) \<or>
          ((\<forall>t \<in> set ts. is_true (sql_eq (dt_is_current t) (Some True)) \<longrightarrow>
               \<not> is_true (sql_eq (ar_teacher_id a) (dt_teacher_id t))) \<and>
           f_teacher_name f = None \<and> f_subject_specialization f = None \<and>
           f_years_of_experience f = None)"
    using joined_teacher[OF ti] unfolding cols by auto
  have school: "(\<exists>s \<in> set ss. is_true (sql_eq (dsch_is_current s) (Some True)) \<and>
             is_true (sql_eq (ar_school_id a) (dsch_school_id s)) \<and>
             f_school_name f = dsch_school_name s \<and>
             f_school_type f = dsch_school_type s \<and>
             f_education_level f = dsch_education_level s \<and>
             f_is_rural f = dsch_is_rural s) \<or>
          ((\<forall>s \<in> set ss. is_true (sql_eq (dsch_is_current s) (Some True)) \<longrightarrow>
               \<not> is_true (sql_eq (ar_school_id a) (dsch_school_id s))) \<and>
           f_school_name f = None \<and> f_school_type f = None \<and>
           f_education_level f = None \<and> f_is_rural f = None)"
    using joined_school[OF sch] unfolding cols by auto
  have "enrich eng env (map (\<lambda>d. d\<lparr> ds_effective_from := vfrom d, ds_effective_to := vto d \<rparr>) ds) ts ss subs
          = enrich eng env ds ts ss subs"
    by (rule ext) (simp add: enrich_def student_info_ignores_effective_dates)
  then have "fct_assessment_results eng env target stg
            (map (\<lambda>d. d\<lparr> ds_effective_from := vfrom d, ds_effective_to := vto d \<rparr>) ds) ts ss subs
          = fct_assessment_results eng env target stg ds ts ss subs"
    by (simp add: fct_assessment_results_def enriched_results_def)
  with student teacher school show ?thesis unfolding a_def by blast
qed

theorem facts_join_to_current_dimension_rows_witness:
  "map f_socioeconomic_status
     (fct_assessment_results example_engine run_A None results_one_student
        (dim_students example_engine run_A students_A_then_B) [] [] [])
     = [Some ''High''] \<and>
   (\<exists>d \<in> set (dim_students example_engine run_A students_A_then_B).
      ds_is_current d \<and>
      f_socioeconomic_status
        (hd (fct_assessment_results example_engine run_A None results_one_student
               (dim_students example_engine run_A students_A_then_B) [] [] []))
        = ds_socioeconomic_status d) \<and>
   fct_assessment_results example_engine run_A None results_one_student
     (map (\<lambda>d. d\<lparr> ds_effective_from := None, ds_effective_to := 0 \<rparr>)
          (dim_students example_engine run_A students_A_then_B)) [] [] []
     = fct_assessment_results example_engine run_A None results_one_student
         (dim_students example_engine run_A students_A_then_B) [] [] []"
proof -
  let ?X = "fct_assessment_results example_engine run_A None results_one_student
              (dim_students example_engine run_A students_A_then_B) [] [] []"
  have e: "map f_socioeconomic_status ?X = [Some ''High'']"
    by (simp add: fact_defs si_AB sql_simps results_one_student_def)
  from map_singletonD[OF e] have m: "hd ?X \<in> set ?X" and v: "f_socioeconomic_status (hd ?X) = Some ''High''"
    by blast+
  from facts_join_to_current_dimension_rows[OF m, where vfrom = "\<lambda>d. None" and vto = "\<lambda>d. 0"] v e
  show ?thesis by auto
qed












text \<open>
  The derived measures. The pass indicator is 1 exactly when the percentage is at least
  33, and the normalized score is marks over maximum whenever the maximum is neither 0
  nor 1.
\<close>

lemma is_passed_indicator_iff:
  "is_passed_indicator_of p = (if \<exists>v. p = Some v \<and> 33 \<le> v then 1 else 0)"
  by (simp add: is_passed_indicator_of_def sql_simps)

lemma normalized_score_other_max_marks:
  "mx \<noteq> 0 \<Longrightarrow> mx \<noteq> 1 \<Longrightarrow> normalized_score_of (Some m) (Some mx) = Some (m / mx)"
  by (simp add: normalized_score_of_def SAFE_DIVIDE_def NULLIF_def)

lemma calculated_percentage_positive_max_marks:
  "mx \<noteq> 0 \<Longrightarrow> calculated_percentage_of (Some m) (Some mx) = Some (m / mx * 100)"
  by (simp add: calculated_percentage_of_def SAFE_DIVIDE_def NULLIF_def)

text \<open>
  C9 (the code departs from the claim). An assessment with 1 mark out of a maximum of 1
  gets the calculated percentage 100 and no normalized score: line 193 of the model says
  \<open>NULLIF(ar.max_marks, 1)\<close> where line 176 says \<open>NULLIF(ar.max_marks, 0)\<close>.
\<close>

theorem normalized_score_is_null_when_max_marks_is_one:
  "map (\<lambda>f. (ar_marks_obtained (f_ar f), ar_max_marks (f_ar f), f_calculated_percentage f, f_normalized_score f))
     (fct_assessment_results example_engine run_A None
        [result_row 1 1 (Some 19783) (Some (TIMESTAMP_of_date 19790)) 1 1]
        [] [] [] [])
     = [(Some 1, Some 1, Some 100, None)]"
  by (simp add: fact_defs student_info_def sql_simps)

section \<open>The dimension builder\<close>

lemma insort_key_map:
  "insort_key f (g x) (map g xs) = map g (insort_key (\<lambda>y. f (g y)) x xs)"
  by (induction xs) auto

lemma sort_key_map: "sort_key f (map g xs) = map g (sort_key (\<lambda>y. f (g y)) xs)"
  by (induction xs) (auto simp: insort_key_map)

lemma map_enumerate_indep:
  "(\<And>i x. g (F i x) = h x) \<Longrightarrow> map g (map (\<lambda>(i, x). F i x) (enumerate n xs)) = map h xs"
  by (induction xs arbitrary: n) auto

lemma map_filter_enumerate_indep:
  "(\<And>i x. g (F i x) = h x) \<Longrightarrow> (\<And>i x. P (F i x) = Q x) \<Longrightarrow>
   map g (filter P (map (\<lambda>(i, x). F i x) (enumerate n xs))) = map h (filter Q xs)"
  by (induction xs arbitrary: n) auto

lemma dim_students_alt:
  "dim_students eng env raw =
     map (\<lambda>(i, u). dim_student_of env i (changed_record_of eng env u))
         (enumerate 0 (emitted_updates eng raw))"
proof -
  have "sort_key (\<lambda>c. (cr_student_id c, cr_effective_from c))
                 (map (changed_record_of eng env) us)
        = map (changed_record_of eng env)
              (sort_key (\<lambda>u. (student_id (su_row u), created_at (su_row u))) us)" for us
    by (simp add: sort_key_map changed_record_of_def Let_def)
  then show ?thesis
    by (simp add: dim_students_def changed_records_def emitted_updates_def enumerate_eq_zip
        zip_map2 case_prod_beta)
qed

lemma su_row_window [simp]: "map su_row (student_updates_window eng prev seen rs) = rs"
  by (induction rs arbitrary: prev seen) (auto simp: Let_def)

lemma set_student_partition [simp]:
  "set (student_partition raw k) = {r \<in> set raw. student_id r = Some k}"
  by (auto simp: student_partition_def)

lemma sorted_student_partition [simp]: "sorted (map created_at (student_partition raw k))"
  by (simp add: student_partition_def)

lemma window_student_id:
  assumes "u \<in> set (student_updates_window eng prev seen (student_partition raw k))"
  shows "student_id (su_row u) = Some k"
proof -
  have "su_row ` set (student_updates_window eng prev seen (student_partition raw k))
          = set (student_partition raw k)"
    by (metis set_map su_row_window)
  with assms show ?thesis by auto
qed

lemma sorted_map_pair: "sorted (map f xs) \<Longrightarrow> sorted (map (\<lambda>x. (c, f x)) xs)"
  by (induction xs) (auto simp: less_eq_prod_def)

lemma filter_concat_key:
  assumes "distinct ks" and "\<And>k' x. k' \<in> set ks \<Longrightarrow> x \<in> set (g k') \<Longrightarrow> key x = k'"
  shows "filter (\<lambda>x. key x = k) (concat (map g ks)) = (if k \<in> set ks then g k else [])"
  using assms
proof (induction ks)
  case Nil
  then show ?case by simp
next
  case (Cons a ks)
  have a: "filter (\<lambda>x. key x = k) (g a) = (if k = a then g a else [])"
    using Cons.prems(2)[of a] by (auto simp: filter_empty_conv filter_id_conv)
  have "filter (\<lambda>x. key x = k) (concat (map g ks)) = (if k \<in> set ks then g k else [])"
    using Cons by auto
  with a Cons.prems(1) show ?case by auto
qed

lemma student_partition_empty:
  assumes "k \<notin> set (List.map_filter student_id raw)"
  shows "student_partition raw k = []"
proof -
  have "r \<notin> set (student_partition raw k)" for r
  proof
    assume "r \<in> set (student_partition raw k)"
    then have "r \<in> set raw" "student_id r = Some k" by auto
    then have "k \<in> set (List.map_filter student_id raw)"
      by (force simp: List.map_filter_def)
    with assms show False by simp
  qed
  then show ?thesis by (meson last_in_set)
qed

lemma emitted_updates_of_student:
  "filter (\<lambda>u. student_id (su_row u) = Some k) (emitted_updates eng raw) = versions eng raw k"
proof -
  let ?K = "\<lambda>u. (student_id (su_row u), created_at (su_row u))"
  let ?g = "\<lambda>k. filter is_changed (student_updates_window eng None None (student_partition raw k))"
  let ?ks = "remdups (List.map_filter student_id raw)"
  have 1: "filter is_changed (student_updates eng raw) = concat (map ?g ?ks)"
    by (simp add: student_updates_def filter_concat comp_def)
  have 2: "filter (\<lambda>u. student_id (su_row u) = Some k) (concat (map ?g ?ks))
             = (if k \<in> set ?ks then ?g k else [])"
  proof -
    have "filter (\<lambda>u. the (student_id (su_row u)) = k) (concat (map ?g ?ks)) = (if k \<in> set ?ks then ?g k else [])"
      by (rule filter_concat_key) (auto dest: window_student_id)
    moreover have "filter (\<lambda>u. the (student_id (su_row u)) = k) (concat (map ?g ?ks))
        = filter (\<lambda>u. student_id (su_row u) = Some k) (concat (map ?g ?ks))"
      by (rule filter_cong) (auto dest: window_student_id)
    ultimately show ?thesis by simp
  qed
  have 3: "(if k \<in> set ?ks then ?g k else []) = versions eng raw k"
    by (auto simp: versions_def student_partition_empty)
  have "map (\<lambda>u. created_at (su_row u)) (student_updates_window eng None None (student_partition raw k))
          = map created_at (map su_row (student_updates_window eng None None (student_partition raw k)))"
    by (simp only: map_map comp_def)
  then have "sorted (map (\<lambda>u. created_at (su_row u)) (student_updates_window eng None None (student_partition raw k)))"
    by (simp only: su_row_window sorted_student_partition)
  then have "sorted (map (\<lambda>u. created_at (su_row u)) (versions eng raw k))"
    unfolding versions_def by (rule sorted_filter)
  then have "sorted (map (\<lambda>u. (Some k, created_at (su_row u))) (versions eng raw k))"
    by (rule sorted_map_pair)
  moreover have "map ?K (versions eng raw k) = map (\<lambda>u. (Some k, created_at (su_row u))) (versions eng raw k)"
    unfolding versions_def by (rule map_cong) (auto dest: window_student_id)
  ultimately have 4: "sorted (map ?K (versions eng raw k))"
    by (simp only:)
  show ?thesis
    unfolding emitted_updates_def filter_sort 1 2 3
    by (rule sort_key_id_if_sorted[OF 4])
qed

lemma window_of_new_versions:
  assumes "every_row_a_new_version eng rs"
    and "rs \<noteq> [] \<Longrightarrow> prev \<noteq> Some (row_hash_of eng (hd rs))"
    and "\<And>t m. rs \<noteq> [] \<Longrightarrow> seen = Some (t, m) \<Longrightarrow> t \<noteq> created_at (hd rs)"
  shows "map (\<lambda>u. interval_of (changed_record_of eng env u))
             (filter is_changed (student_updates_window eng prev seen rs))
           = scd2_intervals (List.map_filter created_at rs)"
  using assms
proof (induction eng rs arbitrary: prev seen rule: every_row_a_new_version.induct)
  case (1 eng)
  then show ?case by (simp add: List.map_filter_simps)
next
  case (2 eng r)
  then obtain t where t: "created_at r = Some t" by auto
  have n: "(case seen of None \<Rightarrow> 1 | Some (t, m) \<Rightarrow> if t = created_at r then Suc m else 1) = Suc 0"
    using 2(3) by (cases seen) auto
  show ?case using 2(2) t
    by (cases prev)
       (simp_all add: n Let_def is_changed_def sql_simps List.map_filter_simps interval_of_def
          changed_record_of_def COALESCE_def)
next
  case (3 eng r r' rs)
  from 3(2) obtain t t' where t: "created_at r = Some t" and t': "created_at r' = Some t'"
    by (cases "created_at r"; cases "created_at r'") auto
  have n: "(case seen of None \<Rightarrow> 1 | Some (t, m) \<Rightarrow> if t = created_at r then Suc m else 1) = Suc 0"
    using 3(4) by (cases seen) auto
  have tail: "map (\<lambda>u. interval_of (changed_record_of eng env u))
             (filter is_changed (student_updates_window eng (Some (row_hash_of eng r)) (Some (created_at r, Suc 0)) (r' # rs)))
           = scd2_intervals (List.map_filter created_at (r' # rs))"
    using 3(2) by (intro 3(1)) auto
  have hd: "is_changed \<lparr> su_row = r, row_hash = row_hash_of eng r, previous_row_hash = prev,
                         next_created_at = created_at r', rn = Suc 0 \<rparr>"
    using 3(3) by (cases prev) (simp_all add: is_changed_def sql_simps)
  have "student_updates_window eng prev seen (r # r' # rs) =
          \<lparr> su_row = r, row_hash = row_hash_of eng r, previous_row_hash = prev,
            next_created_at = created_at r', rn = Suc 0 \<rparr>
          # student_updates_window eng (Some (row_hash_of eng r)) (Some (created_at r, Suc 0)) (r' # rs)"
    by (subst student_updates_window.simps(2))
       (simp add: n Let_def del: student_updates_window.simps)
  then show ?case
    using hd tail t t'
    by (simp add: List.map_filter_simps interval_of_def changed_record_of_def COALESCE_def sql_simps
             del: student_updates_window.simps)
qed

lemma versions_intervals:
  assumes "every_row_a_new_version eng (student_partition raw k)"
  shows "map (\<lambda>u. interval_of (changed_record_of eng env u)) (versions eng raw k)
           = scd2_intervals (List.map_filter created_at (student_partition raw k))"
  unfolding versions_def by (rule window_of_new_versions[OF assms]) simp_all

lemma dim_rows_of_student:
  "map (\<lambda>d. (ds_effective_from d, ds_effective_to d, ds_is_current d))
       (filter (\<lambda>d. ds_student_id d = Some k) (dim_students eng env raw))
     = map (\<lambda>u. interval_of (changed_record_of eng env u)) (versions eng raw k)"
proof -
  have "map (\<lambda>d. (ds_effective_from d, ds_effective_to d, ds_is_current d))
            (filter (\<lambda>d. ds_student_id d = Some k)
               (map (\<lambda>(i, u). dim_student_of env i (changed_record_of eng env u))
                    (enumerate 0 (emitted_updates eng raw))))
          = map (\<lambda>u. interval_of (changed_record_of eng env u))
                (filter (\<lambda>u. student_id (su_row u) = Some k) (emitted_updates eng raw))"
    by (rule map_filter_enumerate_indep)
       (simp_all add: dim_student_of_def interval_of_def changed_record_of_def Let_def)
  then show ?thesis by (simp only: dim_students_alt emitted_updates_of_student)
qed

lemma new_versions_increasing:
  "every_row_a_new_version eng rs \<Longrightarrow> successively (<) (List.map_filter created_at rs)"
proof (induction eng rs rule: every_row_a_new_version.induct)
  case (3 eng r r' rs)
  then obtain t t' where "created_at r = Some t" "created_at r' = Some t'"
    by (cases "created_at r"; cases "created_at r'") auto
  with 3 show ?case by (auto simp: List.map_filter_simps)
qed (auto simp: List.map_filter_simps)

lemma chain_of_intervals:
  assumes "map (\<lambda>d. (ds_effective_from d, ds_effective_to d, ds_is_current d)) rows = scd2_intervals ts"
    and "successively (<) ts"
  shows "scd2_chain rows \<and> length (filter ds_is_current rows) = (if ts = [] then 0 else 1)"
  using assms
proof (induction ts arbitrary: rows rule: scd2_intervals.induct)
  case 1
  then show ?case by simp
next
  case (2 t)
  then obtain d where "rows = [d]" by auto
  with 2 show ?case by auto
next
  case (3 t t' ts)
  from 3(2) obtain d rows' where r: "rows = d # rows'"
    and d: "ds_effective_from d = Some t" "ds_effective_to d = t' - INTERVAL_1_SECOND" "\<not> ds_is_current d"
    and t: "map (\<lambda>d. (ds_effective_from d, ds_effective_to d, ds_is_current d)) rows' = scd2_intervals (t' # ts)"
    by auto
  from 3(3) have lt: "t < t'" and s: "successively (<) (t' # ts)" by auto
  from 3(1)[OF t s] have ih: "scd2_chain rows'" "length (filter ds_is_current rows') = 1" by auto
  from t obtain d' rows'' where r': "rows' = d' # rows''" and d': "ds_effective_from d' = Some t'"
    by (cases ts) auto
  from r r' d d' lt ih show ?case by auto
qed

lemma window_rows_subset:
  "u \<in> set (student_updates_window eng prev seen rs) \<Longrightarrow> su_row u \<in> set rs"
  by (metis image_eqI set_map su_row_window)

lemma first_numbered_distinct:
  assumes "sorted (map created_at rs)"
    and "\<And>t m. seen = Some (t, m) \<Longrightarrow> 0 < m \<and> (\<forall>r\<in>set rs. t \<le> created_at r)"
  shows "distinct (map (\<lambda>u. created_at (su_row u))
                       (filter (\<lambda>u. rn u = Suc 0) (student_updates_window eng prev seen rs))) \<and>
         (\<forall>t m. seen = Some (t, m) \<longrightarrow>
            t \<notin> set (map (\<lambda>u. created_at (su_row u))
                          (filter (\<lambda>u. rn u = Suc 0) (student_updates_window eng prev seen rs))))"
  using assms
proof (induction rs arbitrary: prev seen)
  case Nil
  then show ?case by simp
next
  case (Cons r rs)
  define n where "n = (case seen of None \<Rightarrow> 1 | Some (t, m) \<Rightarrow> if t = created_at r then Suc m else 1)"
  define E where "E = map (\<lambda>u. created_at (su_row u))
                       (filter (\<lambda>u. rn u = Suc 0)
                          (student_updates_window eng (Some (row_hash_of eng r)) (Some (created_at r, n)) rs))"
  have n0: "0 < n" unfolding n_def by (auto split: option.splits)
  have sorted_tl: "sorted (map created_at rs)" and le: "\<forall>r'\<in>set rs. created_at r \<le> created_at r'"
    using Cons.prems(1) by auto
  from Cons.IH[OF sorted_tl, of "Some (created_at r, n)" "Some (row_hash_of eng r)"] n0 le
  have ih: "distinct E" "created_at r \<notin> set E"
    unfolding E_def by auto
  have sub: "set E \<subseteq> created_at ` set rs"
    unfolding E_def by (auto dest: window_rows_subset)
  have w: "map (\<lambda>u. created_at (su_row u))
             (filter (\<lambda>u. rn u = Suc 0) (student_updates_window eng prev seen (r # rs)))
           = (if n = Suc 0 then created_at r # E else E)"
    by (simp add: n_def E_def Let_def)
  show ?case
  proof (cases "n = Suc 0")
    case True
    have "t \<notin> set (created_at r # E)" if s: "seen = Some (t, m)" for t m
    proof -
      from Cons.prems(2)[OF s] have m: "0 < m" and tle: "t \<le> created_at r" by auto
      from True s m have ne: "t \<noteq> created_at r" unfolding n_def by (auto split: if_splits)
      with tle have "t < created_at r" by simp
      with le sub have "t \<notin> set E" by force
      with ne show ?thesis by simp
    qed
    with True ih show ?thesis unfolding w by auto
  next
    case False
    then obtain t m where s: "seen = Some (t, m)" and t: "t = created_at r"
      unfolding n_def by (auto split: option.splits if_splits)
    with False ih show ?thesis unfolding w by auto
  qed
qed

lemma is_changed_first: "is_changed u \<Longrightarrow> rn u = Suc 0"
  by (simp add: is_changed_def sql_simps)

lemma distinct_map_pair: "distinct (map g xs) \<Longrightarrow> distinct (map (\<lambda>x. (h x, g x)) xs)"
  by (induction xs) auto

lemma versions_distinct:
  "distinct (map (\<lambda>u. (student_id (su_row u), created_at (su_row u))) (versions eng raw k))"
proof -
  let ?W = "student_updates_window eng None None (student_partition raw k)"
  have "distinct (map (\<lambda>u. created_at (su_row u)) (filter (\<lambda>u. rn u = Suc 0) ?W))"
    using first_numbered_distinct[of "student_partition raw k" None eng None] by simp
  then have "distinct (map (\<lambda>u. created_at (su_row u)) (filter is_changed (filter (\<lambda>u. rn u = Suc 0) ?W)))"
    by (rule distinct_map_filter)
  moreover have "filter is_changed (filter (\<lambda>u. rn u = Suc 0) ?W) = versions eng raw k"
    unfolding versions_def filter_filter by (rule filter_cong) (auto dest: is_changed_first)
  ultimately show ?thesis by (simp add: distinct_map_pair)
qed

lemma distinct_concat_by_key:
  assumes "distinct ks"
    and "\<And>k. k \<in> set ks \<Longrightarrow> distinct (map K (g k))"
    and "\<And>k x. k \<in> set ks \<Longrightarrow> x \<in> set (g k) \<Longrightarrow> fst (K x) = Some k"
  shows "distinct (map K (concat (map g ks)))"
  using assms
proof (induction ks)
  case Nil
  then show ?case by simp
next
  case (Cons a ks)
  have "K x \<noteq> K y" if "x \<in> set (g a)" "y \<in> set (concat (map g ks))" for x y
  proof -
    from that(2) obtain b where b: "b \<in> set ks" "y \<in> set (g b)" by auto
    from Cons.prems(3)[of a x] that(1) have "fst (K x) = Some a" by simp
    moreover from Cons.prems(3)[of b y] b have "fst (K y) = Some b" by simp
    moreover from Cons.prems(1) b(1) have "a \<noteq> b" by auto
    ultimately show ?thesis by auto
  qed
  then have disj: "K ` set (g a) \<inter> K ` set (concat (map g ks)) = {}" by blast
  have d1: "distinct (map K (concat (map g ks)))" using Cons by auto
  have d2: "distinct (map K (g a))" using Cons.prems(2) by simp
  have "distinct (map K (g a) @ map K (concat (map g ks)))"
    unfolding distinct_append set_map using disj d1 d2 by blast
  then show ?case by simp
qed

lemma emitted_updates_distinct:
  "distinct (map (\<lambda>u. (student_id (su_row u), created_at (su_row u))) (emitted_updates eng raw))"
proof -
  let ?K = "\<lambda>u. (student_id (su_row u), created_at (su_row u))"
  let ?ks = "remdups (List.map_filter student_id raw)"
  have a: "filter is_changed (student_updates eng raw) = concat (map (versions eng raw) ?ks)"
    by (simp add: student_updates_def filter_concat comp_def versions_def[abs_def])
  have b: "distinct (map ?K (concat (map (versions eng raw) ?ks)))"
  proof (rule distinct_concat_by_key)
    show "distinct ?ks" by simp
    show "distinct (map ?K (versions eng raw k))" for k by (rule versions_distinct)
    show "fst (?K x) = Some k" if "x \<in> set (versions eng raw k)" for k x
    proof -
      from that have "x \<in> set (student_updates_window eng None None (student_partition raw k))"
        by (simp add: versions_def)
      from window_student_id[OF this] show ?thesis by simp
    qed
  qed
  have c: "distinct (map ?K (filter is_changed (student_updates eng raw)))"
    unfolding a by (rule b)
  have d: "mset (map ?K (emitted_updates eng raw))
             = mset (map ?K (filter is_changed (student_updates eng raw)))"
    unfolding emitted_updates_def by simp
  from mset_eq_imp_distinct_iff[OF d] c show ?thesis by blast
qed

lemma dim_students_keys:
  "map (\<lambda>d. (ds_student_id d, ds_effective_from d)) (dim_students eng env raw)
     = map (\<lambda>u. (student_id (su_row u), created_at (su_row u))) (emitted_updates eng raw)"
  unfolding dim_students_alt
  by (rule map_enumerate_indep) (simp add: dim_student_of_def changed_record_of_def Let_def)

text \<open>Without tied rows the order in which the source rows arrive does not matter.\<close>

lemma filter_same_key_singleton:
  "distinct (map f zs) \<Longrightarrow> k \<in> set zs \<Longrightarrow> filter (\<lambda>x. f k = f x) zs = [k]"
proof (induction zs)
  case Nil
  then show ?case by simp
next
  case (Cons z zs)
  show ?case
  proof (cases "k = z")
    case True
    with Cons.prems(1) have "filter (\<lambda>x. f k = f x) zs = []"
      by (auto simp: filter_empty_conv)
    with True show ?thesis by simp
  next
    case False
    with Cons.prems have kz: "k \<in> set zs" and d: "distinct (map f zs)" and nz: "f z \<notin> f ` set zs"
      by auto
    from kz nz have "f k \<noteq> f z" by (metis imageI)
    with Cons.IH[OF d kz] show ?thesis by simp
  qed
qed

lemma sort_key_of_permutation:
  assumes "mset xs = mset ys" and "distinct (map f xs)"
  shows "sort_key f xs = sort_key f ys"
proof (rule properties_for_sort_key)
  show "mset (sort_key f ys) = mset xs" using assms(1) by simp
  show "sorted (map f (sort_key f ys))" by simp
  fix k assume k: "k \<in> set (sort_key f ys)"
  have "mset (map f (sort_key f ys)) = mset (map f xs)" using assms(1) by simp
  with assms(2) have d: "distinct (map f (sort_key f ys))" by (metis mset_eq_imp_distinct_iff)
  from k assms(1) have kx: "k \<in> set xs" by (metis mset_eq_setD set_sort)
  show "filter (\<lambda>x. f k = f x) (sort_key f ys) = filter (\<lambda>x. f k = f x) xs"
    by (simp only: filter_same_key_singleton[OF d k] filter_same_key_singleton[OF assms(2) kx])
qed

lemma mset_concat_map_permutation:
  assumes "mset ks = mset ks'"
  shows "mset (concat (map g ks)) = mset (concat (map g ks'))"
proof -
  have "mset (concat (map g zs)) = sum_mset (image_mset (\<lambda>k. mset (g k)) (mset zs))" for zs
    by (induction zs) auto
  with assms show ?thesis by simp
qed

lemma student_partition_of_permutation:
  assumes "mset raw = mset raw'" and "no_tied_rows raw"
  shows "student_partition raw k = student_partition raw' k"
proof -
  let ?P = "\<lambda>r. student_id r = Some k"
  have m: "mset (filter ?P raw) = mset (filter ?P raw')" using assms(1) by (metis mset_filter)
  have "filter ?P raw = filter ?P (filter (\<lambda>r. student_id r \<noteq> None) raw)"
    by (auto intro: filter_cong simp: filter_filter)
  moreover from assms(2)
  have "distinct (map (\<lambda>r. (student_id r, created_at r))
                      (filter ?P (filter (\<lambda>r. student_id r \<noteq> None) raw)))"
    unfolding no_tied_rows_def by (rule distinct_map_filter)
  ultimately have "distinct (map (\<lambda>r. (student_id r, created_at r)) (filter ?P raw))" by simp
  then have "distinct (map created_at (filter ?P raw))"
    by (auto simp: distinct_map inj_on_def)
  from sort_key_of_permutation[OF m this] show ?thesis by (simp add: student_partition_def)
qed

lemma emitted_updates_of_permutation:
  assumes "mset raw = mset raw'" and "no_tied_rows raw"
  shows "emitted_updates eng raw = emitted_updates eng raw'"
proof -
  let ?K = "\<lambda>u. (student_id (su_row u), created_at (su_row u))"
  let ?ks = "remdups (List.map_filter student_id raw)"
  let ?ks' = "remdups (List.map_filter student_id raw')"
  have v: "versions eng raw = versions eng raw'"
    by (rule ext) (simp add: versions_def student_partition_of_permutation[OF assms])
  have "mset (List.map_filter student_id raw) = mset (List.map_filter student_id raw')"
    using assms(1) by (simp add: List.map_filter_def)
  then have "set ?ks = set ?ks'" by (metis mset_eq_setD set_remdups)
  then have ks: "mset ?ks = mset ?ks'"
    by (simp add: set_eq_iff_mset_eq_distinct[symmetric])
  have a: "filter is_changed (student_updates eng r) = concat (map (versions eng r) (remdups (List.map_filter student_id r)))" for r
    by (simp add: student_updates_def filter_concat comp_def versions_def[abs_def])
  have m: "mset (filter is_changed (student_updates eng raw)) = mset (filter is_changed (student_updates eng raw'))"
    unfolding a v by (rule mset_concat_map_permutation[OF ks])
  have "mset (map ?K (emitted_updates eng raw)) = mset (map ?K (filter is_changed (student_updates eng raw)))"
    unfolding emitted_updates_def by simp
  with emitted_updates_distinct[of eng raw]
  have d: "distinct (map ?K (filter is_changed (student_updates eng raw)))"
    by (metis mset_eq_imp_distinct_iff)
  from sort_key_of_permutation[OF m d] show ?thesis by (simp add: emitted_updates_def)
qed

lemma dim_students_of_permutation:
  assumes "mset raw = mset raw'" and "no_tied_rows raw"
  shows "dim_students eng env raw = dim_students eng env raw'"
  by (simp only: dim_students_alt emitted_updates_of_permutation[OF assms])

lemma intervals_A_then_B:
  "map (\<lambda>d. (ds_effective_from d, ds_effective_to d, ds_is_current d))
       (dim_students example_engine run_A students_A_then_B)
     = [(Some 1704067200000000, 1717199999000000, False),
        (Some 1717200000000000, 253402300799000000, True)]"
  by (simp add: dim_defs sql_simps students_A_then_B_def)

lemma new_versions_A_then_B:
  "every_row_a_new_version example_engine (student_partition students_A_then_B 1)"
  by (simp add: students_A_then_B_def student_partition_def student_row_def row_hash_of_def
      example_engine_def COALESCE_def TIMESTAMP_of_date_def)


text \<open>
  C2 (the code departs from the claim on an input the claim names). The last source row
  of student 1 repeats the attributes of the row before it, five months later. \<open>LEAD\<close>
  (line 59) reads the timestamp of the repeated row, because the window runs over all
  source rows, and the WHERE clause of \<open>changed_records\<close> (line 127) drops the repeated
  row afterwards. The table then holds one row for the student, from 2024-01-01 00:00:00
  to 2024-05-31 23:59:59 and not current: no row of the key has \<open>is_current = true\<close>, and
  no interval contains 2024-06-01 00:00:00, the time of the last source row. This holds
  for every engine and every run.
\<close>

theorem no_current_row_when_last_source_row_repeats:
  "map (\<lambda>d. (ds_student_id d, ds_effective_from d, ds_effective_to d, ds_is_current d))
       (dim_students eng env students_A_then_A)
     = [(Some 1, Some (TIMESTAMP_of_date 19723), TIMESTAMP_of_date 19875 - INTERVAL_1_SECOND, False)] \<and>
   filter ds_is_current (dim_students eng env students_A_then_A) = [] \<and>
   filter (\<lambda>d. half_open_interval_contains d (TIMESTAMP_of_date 19875))
          (dim_students eng env students_A_then_A) = []"
proof -
  let ?D = "dim_students eng env students_A_then_A"
  let ?g = "\<lambda>d. (ds_student_id d, ds_effective_from d, ds_effective_to d, ds_is_current d)"
  have a: "map ?g ?D
     = [(Some 1, Some (TIMESTAMP_of_date 19723), TIMESTAMP_of_date 19875 - INTERVAL_1_SECOND, False)]"
    by (simp add: dim_defs_any_engine sql_simps students_A_then_A_def)
  have "map ?g (filter ds_is_current ?D) = filter (\<lambda>(i, f, t, c). c) (map ?g ?D)"
    by (simp add: filter_map comp_def)
  then have b: "filter ds_is_current ?D = []" unfolding a by simp
  have "map ?g (filter (\<lambda>d. half_open_interval_contains d (TIMESTAMP_of_date 19875)) ?D)
          = filter (\<lambda>(i, f, t, c). is_true (sql_le f (Some (TIMESTAMP_of_date 19875))) \<and> TIMESTAMP_of_date 19875 < t)
                   (map ?g ?D)"
    by (simp add: filter_map comp_def half_open_interval_contains_def)
  then have c: "filter (\<lambda>d. half_open_interval_contains d (TIMESTAMP_of_date 19875)) ?D = []"
    unfolding a by (simp add: sql_simps INTERVAL_1_SECOND_def)
  from a b c show ?thesis by simp
qed


text \<open>
  A repeated row in the middle of a history leaves the time from it to the next version
  covered by no row.
\<close>

lemma repeated_row_leaves_an_uncovered_period:
  "map (\<lambda>d. (ds_effective_from d, ds_effective_to d, ds_is_current d))
       (dim_students example_engine run_A students_A_A_then_B)
     = [(Some 1704067200000000, 1709251199000000, False),
        (Some 1717200000000000, 253402300799000000, True)]"
  by (simp add: dim_defs sql_simps students_A_A_then_B_def)


text \<open>
  The row hash is the digest of the attribute strings joined without a separator (lines
  23-38), so two rows that differ in their attributes can share it; the later one is then
  no new version, whatever the digest function.
\<close>

lemma rows_split_differently_share_a_row_hash:
  "row_hash_of eng (students_AB_C_then_A_BC ! 0) = row_hash_of eng (students_AB_C_then_A_BC ! 1) \<and>
   district (students_AB_C_then_A_BC ! 0) \<noteq> district (students_AB_C_then_A_BC ! 1) \<and>
   map (\<lambda>d. (ds_district d, ds_upazila d, ds_effective_from d, ds_effective_to d, ds_is_current d))
       (dim_students eng env students_AB_C_then_A_BC)
     = [(Some ''AB'', Some ''C'', Some (TIMESTAMP_of_date 19723),
         TIMESTAMP_of_date 19875 - INTERVAL_1_SECOND, False)]"
  by (simp add: dim_defs_any_engine sql_simps students_AB_C_then_A_BC_def)


text \<open>
  C4 (as the claim states it, refuted). On the specification's example the first row ends
  at 2024-05-31 23:59:59, one second before 2024-06-01 00:00:00, the timestamp of the
  next version; the second row ends at 9999-12-31 23:59:59.
\<close>

theorem first_effective_to_is_a_second_before_the_change:
  "map ds_effective_to (dim_students example_engine run_A students_A_then_B)
     = [1717199999000000, 253402300799000000] \<and>
   TIMESTAMP_of_date 19875 = 1717200000000000 \<and>
   TIMESTAMP_9999_12_31_23_59_59 = 253402300799000000"
proof -
  have "map ds_effective_to (dim_students example_engine run_A students_A_then_B)
          = map (\<lambda>(a, b, c). b) (map (\<lambda>d. (ds_effective_from d, ds_effective_to d, ds_is_current d))
               (dim_students example_engine run_A students_A_then_B))"
    by (simp add: comp_def)
  then show ?thesis
    by (simp only: intervals_A_then_B) (simp add: TIMESTAMP_of_date_def TIMESTAMP_9999_12_31_23_59_59_def)
qed


text \<open>
  C4 (amended). Take a business key of which every source row carries a timestamp, later
  than that of the row before it, and a row hash (the digest of lines 23-38) different
  from that of the row before it. The Builder emits one row per source row of the key;
  \<open>effective_from\<close> equals the version's update timestamp and \<open>effective_to\<close> equals the
  next version's update timestamp minus one second when there is one, else the sentinel
  9999-12-31 23:59:59, and only the last version is current. The input students [{id:1,
  district:A, 2024-01-01}, {id:1, district:B, 2024-06-01}] yields exactly two rows:
  (2024-01-01 00:00:00, 2024-05-31 23:59:59, false) and (2024-06-01 00:00:00, 9999-12-31
  23:59:59, true).
\<close>

theorem effective_dates_of_versions:
  assumes "every_row_a_new_version eng (student_partition raw k)"
  shows "map (\<lambda>d. (ds_effective_from d, ds_effective_to d, ds_is_current d))
             (filter (\<lambda>d. ds_student_id d = Some k) (dim_students eng env raw))
           = scd2_intervals (List.map_filter created_at (student_partition raw k)) \<and>
         map (\<lambda>d. (ds_effective_from d, ds_effective_to d, ds_is_current d))
             (dim_students example_engine run_A students_A_then_B)
           = [(Some (TIMESTAMP_of_date 19723), TIMESTAMP_of_date 19875 - INTERVAL_1_SECOND, False),
              (Some (TIMESTAMP_of_date 19875), TIMESTAMP_9999_12_31_23_59_59, True)]"
proof -
  have "map (\<lambda>d. (ds_effective_from d, ds_effective_to d, ds_is_current d))
             (filter (\<lambda>d. ds_student_id d = Some k) (dim_students eng env raw))
           = scd2_intervals (List.map_filter created_at (student_partition raw k))"
    by (simp only: dim_rows_of_student versions_intervals[OF assms])
  moreover have "map (\<lambda>d. (ds_effective_from d, ds_effective_to d, ds_is_current d))
             (dim_students example_engine run_A students_A_then_B)
           = [(Some (TIMESTAMP_of_date 19723), TIMESTAMP_of_date 19875 - INTERVAL_1_SECOND, False),
              (Some (TIMESTAMP_of_date 19875), TIMESTAMP_9999_12_31_23_59_59, True)]"
    by (simp only: intervals_A_then_B)
       (simp add: TIMESTAMP_of_date_def INTERVAL_1_SECOND_def TIMESTAMP_9999_12_31_23_59_59_def)
  ultimately show ?thesis by simp
qed


theorem effective_dates_of_versions_witness:
  "every_row_a_new_version example_engine (student_partition students_A_then_B 1) \<and>
   map (\<lambda>d. (ds_effective_from d, ds_effective_to d, ds_is_current d))
       (filter (\<lambda>d. ds_student_id d = Some 1) (dim_students example_engine run_A students_A_then_B))
     = [(Some 1704067200000000, 1717199999000000, False),
        (Some 1717200000000000, 253402300799000000, True)]"
proof -
  have "scd2_intervals (List.map_filter created_at (student_partition students_A_then_B 1))
          = [(Some 1704067200000000, 1717199999000000, False),
             (Some 1717200000000000, 253402300799000000, True)]"
    by (simp add: students_A_then_B_def student_partition_def student_row_def List.map_filter_simps
        TIMESTAMP_of_date_def INTERVAL_1_SECOND_def TIMESTAMP_9999_12_31_23_59_59_def)
  with effective_dates_of_versions[OF new_versions_A_then_B, of run_A] new_versions_A_then_B
  show ?thesis by simp
qed

text \<open>
  The validity intervals are closed. On the two-version history of student 1 the instant
  2024-05-31 23:59:59 lies after the first-seen timestamp 2024-01-01 and inside no
  half-open interval from \<open>effective_from\<close> to \<open>effective_to\<close>: the first interval ends at
  that instant and the second begins one second later.
\<close>

lemma half_open_intervals_leave_a_gap:
  "map ds_effective_from (dim_students example_engine run_A students_A_then_B)
     = [Some 1704067200000000, Some 1717200000000000] \<and>
   filter (\<lambda>d. half_open_interval_contains d 1717199999000000)
          (dim_students example_engine run_A students_A_then_B) = []"
proof -
  let ?D = "dim_students example_engine run_A students_A_then_B"
  let ?g = "\<lambda>d. (ds_effective_from d, ds_effective_to d, ds_is_current d)"
  have a: "map ds_effective_from ?D = map (\<lambda>(a, b, c). a) (map ?g ?D)"
    by (simp add: comp_def)
  have "map ?g (filter (\<lambda>d. half_open_interval_contains d 1717199999000000) ?D)
          = filter (\<lambda>(a, b, c). is_true (sql_le a (Some 1717199999000000)) \<and> 1717199999000000 < b) (map ?g ?D)"
    by (simp add: filter_map comp_def half_open_interval_contains_def)
  then have "map ?g (filter (\<lambda>d. half_open_interval_contains d 1717199999000000) ?D) = []"
    by (simp only: intervals_A_then_B) (simp add: sql_simps)
  then show ?thesis unfolding a by (simp only: intervals_A_then_B) simp
qed


text \<open>
  For a business key of which every source row is a new version (a timestamp later than
  that of the row before, a row hash different from it), the rows of the key, in the
  order of \<open>effective_from\<close>, are closed intervals that start at the key's first-seen
  timestamp and follow each other without overlap at a distance of one second
  (\<open>effective_from\<close> of a row is \<open>effective_to\<close> of the row before plus one second), the last
  one ends at the sentinel, and exactly one row, the last, has \<open>is_current = true\<close>.
\<close>

lemma scd2_chain_of_changing_history:
  assumes "every_row_a_new_version eng (student_partition raw k)"
    and "student_partition raw k \<noteq> []"
  shows "scd2_chain (filter (\<lambda>d. ds_student_id d = Some k) (dim_students eng env raw)) \<and>
         length (filter ds_is_current
                   (filter (\<lambda>d. ds_student_id d = Some k) (dim_students eng env raw))) = 1 \<and>
         ds_effective_from (hd (filter (\<lambda>d. ds_student_id d = Some k) (dim_students eng env raw)))
           = created_at (hd (student_partition raw k))"
proof -
  let ?rows = "filter (\<lambda>d. ds_student_id d = Some k) (dim_students eng env raw)"
  let ?ts = "List.map_filter created_at (student_partition raw k)"
  have i: "map (\<lambda>d. (ds_effective_from d, ds_effective_to d, ds_is_current d)) ?rows = scd2_intervals ?ts"
    by (simp only: dim_rows_of_student versions_intervals[OF assms(1)])
  from assms(2) obtain r rs where p: "student_partition raw k = r # rs" by (cases "student_partition raw k") auto
  with assms(1) obtain t where t: "created_at r = Some t" by (cases rs) auto
  from p t obtain ts' where ts: "?ts = t # ts'" by (simp add: List.map_filter_simps)
  from chain_of_intervals[OF i new_versions_increasing[OF assms(1)]] ts
  have c: "scd2_chain ?rows" "length (filter ds_is_current ?rows) = 1" by auto
  from i ts have "ds_effective_from (hd ?rows) = Some t"
    by (cases ts'; cases ?rows) auto
  with c p t show ?thesis by simp
qed


lemma scd2_chain_of_changing_history_example:
  "every_row_a_new_version example_engine (student_partition students_A_then_B 1) \<and>
   student_partition students_A_then_B 1 \<noteq> [] \<and>
   scd2_chain (filter (\<lambda>d. ds_student_id d = Some 1)
                      (dim_students example_engine run_A students_A_then_B)) \<and>
   length (filter ds_is_current
             (filter (\<lambda>d. ds_student_id d = Some 1)
                     (dim_students example_engine run_A students_A_then_B))) = 1"
proof -
  have ne: "student_partition students_A_then_B 1 \<noteq> []"
    by (simp add: students_A_then_B_def student_partition_def student_row_def)
  from scd2_chain_of_changing_history[OF new_versions_A_then_B ne, of run_A] new_versions_A_then_B ne
  show ?thesis by simp
qed


text \<open>
  C10 (as the claim states it, refuted). Two source rows of student 1 share one timestamp.
  Presented in the order A, B the Builder keeps A, the first by scan order and not the
  last; presented in the order B, A, the same multiset of rows, it keeps B.
\<close>

theorem tied_rows_survivor_follows_scan_order:
  "mset students_tie_AB = mset students_tie_BA \<and>
   map ds_district (dim_students example_engine run_A students_tie_AB) = [Some ''A''] \<and>
   map ds_district (dim_students example_engine run_A students_tie_BA) = [Some ''B'']"
proof -
  have "mset students_tie_AB = mset students_tie_BA"
    by (simp add: students_tie_AB_def students_tie_BA_def)
  moreover have "map ds_district (dim_students example_engine run_A students_tie_AB) = [Some ''A'']"
    by (simp add: dim_defs sql_simps students_tie_AB_def)
  moreover have "map ds_district (dim_students example_engine run_A students_tie_BA) = [Some ''B'']"
    by (simp add: dim_defs sql_simps students_tie_BA_def)
  ultimately show ?thesis by simp
qed


text \<open>
  C10 (amended). The Dimension Builder emits at most one row per (business key, update
  timestamp), and on an input in which no two rows share a business key and a timestamp
  its output is the same for every presentation order of the rows. Which of several
  source rows with the same key and timestamp survives is not fixed by the SQL (the
  ROW_NUMBER that deduplicates is ordered by its own partition column); it follows the
  order in which the engine delivers the tied rows.
\<close>

theorem at_most_one_row_per_key_and_timestamp:
  "distinct (map (\<lambda>d. (ds_student_id d, ds_effective_from d)) (dim_students eng env raw)) \<and>
   (no_tied_rows raw \<and> mset raw = mset raw' \<longrightarrow>
      dim_students eng env raw = dim_students eng env raw')"
proof -
  have "distinct (map (\<lambda>d. (ds_student_id d, ds_effective_from d)) (dim_students eng env raw))"
    by (simp only: dim_students_keys emitted_updates_distinct)
  moreover have "dim_students eng env raw = dim_students eng env raw'"
    if "no_tied_rows raw" "mset raw = mset raw'"
    using that(2) that(1) by (rule dim_students_of_permutation)
  ultimately show ?thesis by blast
qed


theorem at_most_one_row_per_key_and_timestamp_witness:
  "no_tied_rows students_A_then_B \<and>
   mset students_A_then_B = mset (rev students_A_then_B) \<and>
   dim_students example_engine run_A students_A_then_B
     = dim_students example_engine run_A (rev students_A_then_B) \<and>
   distinct (map (\<lambda>d. (ds_student_id d, ds_effective_from d))
                 (dim_students example_engine run_A students_A_then_B))"
proof -
  have n: "no_tied_rows students_A_then_B"
    by (simp add: no_tied_rows_def students_A_then_B_def student_row_def TIMESTAMP_of_date_def)
  have m: "mset students_A_then_B = mset (rev students_A_then_B)"
    by simp
  from at_most_one_row_per_key_and_timestamp
         [of example_engine run_A students_A_then_B "rev students_A_then_B"] n m
  show ?thesis by blast
qed


text \<open>
  C3 (as the claim states it, refuted). Two runs of the Dimension Builder on the same
  input draw different surrogate keys.
\<close>

theorem rerun_draws_new_surrogate_keys:
  "map ds_student_key (dim_students example_engine run_A students_A_then_B) = [''uuid-a-0'', ''uuid-a-1''] \<and>
   map ds_student_key (dim_students example_engine run_B students_A_then_B) = [''uuid-b-0'', ''uuid-b-1'']"
  by (simp add: dim_defs sql_simps students_A_then_B_def)


text \<open>
  Two runs on the same rows in the same order differ only in the columns a run
  regenerates.
\<close>

lemma rerun_in_the_same_order:
  "map ignoring_run_columns (dim_students eng env1 raw)
     = map ignoring_run_columns (dim_students eng env2 raw) \<and>
   map (\<lambda>d. (ds_student_id d, ds_effective_from d)) (dim_students eng env1 raw)
     = map (\<lambda>d. (ds_student_id d, ds_effective_from d)) (dim_students eng env2 raw) \<and>
   length (dim_students eng env1 raw) = length (dim_students eng env2 raw) \<and>
   (CURRENT_DATE env1 = CURRENT_DATE env2 \<and> this env1 = this env2 \<longrightarrow>
      map ignoring_key_and_audit (dim_students eng env1 raw)
        = map ignoring_key_and_audit (dim_students eng env2 raw))"
proof -
  have a: "map ignoring_run_columns (dim_students eng env raw)
             = map (\<lambda>u. ignoring_run_columns (dim_student_of env1 0 (changed_record_of eng env1 u)))
                   (emitted_updates eng raw)" for env
    unfolding dim_students_alt
    by (rule map_enumerate_indep)
       (simp add: ignoring_run_columns_def ignoring_key_and_audit_def dim_student_of_def
          changed_record_of_def Let_def)
  have b: "map ignoring_key_and_audit (dim_students eng env2 raw)
             = map (\<lambda>u. ignoring_key_and_audit (dim_student_of env1 0 (changed_record_of eng env1 u)))
                   (emitted_updates eng raw)"
    if "CURRENT_DATE env1 = CURRENT_DATE env2" "this env1 = this env2"
    unfolding dim_students_alt
    by (rule map_enumerate_indep)
       (simp add: that ignoring_key_and_audit_def dim_student_of_def
          changed_record_of_def Let_def age_of_def age_group_of_def)
  have c: "map ignoring_key_and_audit (dim_students eng env1 raw)
             = map (\<lambda>u. ignoring_key_and_audit (dim_student_of env1 0 (changed_record_of eng env1 u)))
                   (emitted_updates eng raw)"
    unfolding dim_students_alt
    by (rule map_enumerate_indep)
       (simp add: ignoring_key_and_audit_def dim_student_of_def changed_record_of_def Let_def)
  have "length (dim_students eng env1 raw) = length (dim_students eng env2 raw)"
    by (simp add: dim_students_alt)
  with a[of env1] a[of env2] b c show ?thesis
    by (simp add: dim_students_keys)
qed


text \<open>
  With tied rows the order of delivery decides more than the survivor of the tie: the
  same rows in two orders give two rows and one row.
\<close>

lemma tied_rows_change_the_row_count:
  "mset students_tie_AB_then_A = mset students_tie_BA_then_A \<and>
   map ds_district (dim_students example_engine run_A students_tie_AB_then_A) = [Some ''A'', Some ''A''] \<and>
   map ds_district (dim_students example_engine run_A students_tie_BA_then_A) = [Some ''B'']"
proof -
  have "mset students_tie_AB_then_A = mset students_tie_BA_then_A"
    by (simp add: students_tie_AB_then_A_def students_tie_BA_then_A_def)
  moreover have "map ds_district (dim_students example_engine run_A students_tie_AB_then_A) = [Some ''A'', Some ''A'']"
    by (simp add: dim_defs sql_simps students_tie_AB_then_A_def)
  moreover have "map ds_district (dim_students example_engine run_A students_tie_BA_then_A) = [Some ''B'']"
    by (simp add: dim_defs sql_simps students_tie_BA_then_A_def)
  ultimately show ?thesis by simp
qed


text \<open>
  C3 (amended). Take an input in which no two rows with a business key share that key and
  the timestamp. Two runs of the Dimension Builder on these rows, in whatever order the
  rows reach either run, produce the same number of rows and the same (business key,
  effective_from) pairs in the same order; the rows agree in every column other than the
  surrogate key \<open>student_key\<close>, the audit timestamps, and the columns that follow the
  run's date and target relation (\<open>age\<close>, \<open>age_group\<close>, \<open>record_source\<close>); when the two
  runs share the date and the target, the rows agree in every column other than the
  surrogate key and the audit timestamps.
\<close>

theorem rerun_repeats_all_but_keys_and_audit_columns:
  assumes "no_tied_rows raw" and "mset raw = mset raw'"
  shows "map ignoring_run_columns (dim_students eng env1 raw)
           = map ignoring_run_columns (dim_students eng env2 raw') \<and>
         map (\<lambda>d. (ds_student_id d, ds_effective_from d)) (dim_students eng env1 raw)
           = map (\<lambda>d. (ds_student_id d, ds_effective_from d)) (dim_students eng env2 raw') \<and>
         length (dim_students eng env1 raw) = length (dim_students eng env2 raw') \<and>
         (CURRENT_DATE env1 = CURRENT_DATE env2 \<and> this env1 = this env2 \<longrightarrow>
            map ignoring_key_and_audit (dim_students eng env1 raw)
              = map ignoring_key_and_audit (dim_students eng env2 raw'))"
proof -
  have e: "dim_students eng env2 raw' = dim_students eng env2 raw"
    by (rule dim_students_of_permutation[OF assms(2) assms(1), symmetric])
  show ?thesis unfolding e by (rule rerun_in_the_same_order)
qed


theorem rerun_repeats_all_but_keys_and_audit_columns_witness:
  "no_tied_rows students_A_then_B \<and>
   mset students_A_then_B = mset (rev students_A_then_B) \<and>
   map (\<lambda>d. (ds_student_id d, ds_effective_from d)) (dim_students example_engine run_A students_A_then_B)
     = [(Some 1, Some 1704067200000000), (Some 1, Some 1717200000000000)] \<and>
   map (\<lambda>d. (ds_student_id d, ds_effective_from d)) (dim_students example_engine run_B (rev students_A_then_B))
     = [(Some 1, Some 1704067200000000), (Some 1, Some 1717200000000000)] \<and>
   length (dim_students example_engine run_A students_A_then_B)
     = length (dim_students example_engine run_B (rev students_A_then_B)) \<and>
   map ignoring_key_and_audit (dim_students example_engine run_A students_A_then_B)
     = map ignoring_key_and_audit (dim_students example_engine run_B (rev students_A_then_B))"
proof -
  have n: "no_tied_rows students_A_then_B"
    by (simp add: no_tied_rows_def students_A_then_B_def student_row_def TIMESTAMP_of_date_def)
  have m: "mset students_A_then_B = mset (rev students_A_then_B)"
    by simp
  have e: "map (\<lambda>d. (ds_student_id d, ds_effective_from d)) (dim_students example_engine run_A students_A_then_B)
     = [(Some 1, Some 1704067200000000), (Some 1, Some 1717200000000000)]"
    by (simp add: dim_defs sql_simps students_A_then_B_def)
  have d: "CURRENT_DATE run_A = CURRENT_DATE run_B \<and> this run_A = this run_B"
    by (simp add: run_A_def run_B_def)
  note t = rerun_repeats_all_but_keys_and_audit_columns
             [OF n m, of example_engine run_A run_B]
  from t have k: "map (\<lambda>d. (ds_student_id d, ds_effective_from d)) (dim_students example_engine run_A students_A_then_B)
     = map (\<lambda>d. (ds_student_id d, ds_effective_from d)) (dim_students example_engine run_B (rev students_A_then_B))"
    by blast
  from t have l: "length (dim_students example_engine run_A students_A_then_B)
     = length (dim_students example_engine run_B (rev students_A_then_B))"
    by blast
  from t d have i: "map ignoring_key_and_audit (dim_students example_engine run_A students_A_then_B)
     = map ignoring_key_and_audit (dim_students example_engine run_B (rev students_A_then_B))"
    by blast
  have e': "map (\<lambda>d. (ds_student_id d, ds_effective_from d)) (dim_students example_engine run_B (rev students_A_then_B))
     = [(Some 1, Some 1704067200000000), (Some 1, Some 1717200000000000)]"
    using e unfolding k .
  from n m e e' l i show ?thesis by blast
qed

end
